theory Spec2Isabelle
  imports Main "HOL-Library.Word"
begin

section \<open>The Collector of service/application.go\<close>

text \<open>
  A shallow embedding of \<^verbatim>\<open>service/application.go\<close>: the \<^verbatim>\<open>Collector\<close> struct, its
  constructor \<^verbatim>\<open>New\<close>, and the methods \<^verbatim>\<open>Shutdown\<close>, \<^verbatim>\<open>setupTelemetry\<close>,
  \<^verbatim>\<open>runAndWaitForShutdownEvent\<close>, \<^verbatim>\<open>setupConfigurationComponents\<close>, \<^verbatim>\<open>execute\<close>,
  \<^verbatim>\<open>createMemoryBallast\<close> and \<^verbatim>\<open>reloadService\<close>.

  The methods mutate the receiver and call collaborators that live outside the file
  (the telemetry singleton, the parser provider, the config loader, the service, the
  logger, the Go runtime). The model threads a world through every method: the Collector
  itself and the list of actions performed so far, oldest first. What a collaborator
  returns is a parameter of the method that calls it. A method yields a result, or
  panics, or waits forever, or the runtime ends the process with a fatal error.

  Each method is the body of one goroutine. The interleaving of goroutines is not
  modelled: the watch task is a function of its own, and starting it is an action.
  Command-line flag registration, the \<^verbatim>\<open>context.Context\<close> arguments and the fields of the
  log entries are left out. The platform is linux/amd64: Go's \<^verbatim>\<open>int\<close> is 64 bits wide and the
  allocator's limit \<^verbatim>\<open>maxAlloc\<close> is 2^48 bytes.
\<close>

subsection \<open>Data\<close>

text \<open>\<^verbatim>\<open>type State int\<close> with the constants \<^verbatim>\<open>Starting = iota\<close>, \<^verbatim>\<open>Running\<close>, \<^verbatim>\<open>Closing\<close>, \<^verbatim>\<open>Closed\<close>.\<close>

datatype State = Starting | Running | Closing | Closed

fun State_int :: "State \<Rightarrow> nat" where
  "State_int Starting = 0"
| "State_int Running = 1"
| "State_int Closing = 2"
| "State_int Closed = 3"

text \<open>
  Go \<^verbatim>\<open>error\<close> values. \<^verbatim>\<open>ErrSessionClosed\<close> is the sentinel \<^verbatim>\<open>configsource.ErrSessionClosed\<close>;
  \<^verbatim>\<open>Wrap msg e\<close> is \<^verbatim>\<open>fmt.Errorf(msg + "%w", e)\<close>; \<^verbatim>\<open>Combined es\<close> is the aggregate built by
  \<^verbatim>\<open>consumererror.Combine\<close>. A nil error is \<^verbatim>\<open>None\<close> of \<^typ>\<open>'a option\<close>.
\<close>

datatype error =
    ErrSessionClosed
  | Err string
  | Wrap string error
  | Combined "error list"

text \<open>
  \<^verbatim>\<open>errors.Is(err, target)\<close> of the Go standard library: false on a nil error (the target is
  not nil), otherwise true when the error or an error it wraps equals the target.
\<close>

fun unwraps_to :: "error \<Rightarrow> error \<Rightarrow> bool" where
  "unwraps_to (Wrap msg e) target = (Wrap msg e = target \<or> unwraps_to e target)"
| "unwraps_to e target = (e = target)"

fun errors_Is :: "error option \<Rightarrow> error \<Rightarrow> bool" where
  "errors_Is None target = False"
| "errors_Is (Some e) target = unwraps_to e target"

text \<open>
  Modelled from the spec: \<^verbatim>\<open>consumererror.Combine\<close> is called by \<^verbatim>\<open>execute\<close> but its file
  is not part of the sources. The spec: the collected errors "are combined into a single
  aggregate error (empty aggregate = success)", the aggregate being "a single error value
  representing the combination of zero or more independent failures".
\<close>

fun Combine :: "error list \<Rightarrow> error option" where
  "Combine [] = None"
| "Combine (e # es) = Some (Combined (e # es))"


text \<open>
  \<^verbatim>\<open>component.BuildInfo\<close>, with the fields of \<^verbatim>\<open>component/application_info.go\<close> (where the
  struct is still called \<^verbatim>\<open>BinaryInfo\<close>).
\<close>

record BuildInfo =
  Command :: string
  Description :: string
  Version :: string

definition DefaultBinaryInfo :: BuildInfo where
  "DefaultBinaryInfo =
     \<lparr>Command = ''otelcol'', Description = ''OpenTelemetry Collector'', Version = ''latest''\<rparr>"

text \<open>The part of \<^verbatim>\<open>cobra.Command\<close> the file sets; \<^verbatim>\<open>RunE\<close> is the function \<open>RunE\<close> below.\<close>

record Cmd =
  Use :: string
  CmdVersion :: string
  SilenceUsage :: bool

text \<open>A \<^verbatim>\<open>*zap.Logger\<close>, known by the options it was built with.\<close>

datatype Logger = ZapLogger "string list"

datatype level = InfoLevel | WarnLevel | ErrorLevel

text \<open>A \<^verbatim>\<open>*service\<close>: instances are told apart by a number.\<close>

datatype service = Service nat

text \<open>
  A \<^verbatim>\<open>parserprovider.ParserProvider\<close>. Whether its dynamic type also implements the optional
  interfaces \<^verbatim>\<open>Watchable\<close> and \<^verbatim>\<open>Closeable\<close> is what the type assertions of the file test.
\<close>

record ParserProvider =
  providerName :: string
  isWatchable :: bool
  isCloseable :: bool

text \<open>
  A Go channel: the values buffered, the capacity given to \<^verbatim>\<open>make\<close>, and whether it has been
  closed. A nil channel is \<^verbatim>\<open>None\<close>.
\<close>

record 'a chan =
  ch_buf :: "'a list"
  ch_cap :: nat
  ch_closed :: bool

definition make_chan :: "nat \<Rightarrow> 'a chan" where
  "make_chan n = \<lparr>ch_buf = [], ch_cap = n, ch_closed = False\<rparr>"

text \<open>
  The \<^verbatim>\<open>Collector\<close> struct, field by field; \<open>'f\<close> is \<^verbatim>\<open>component.Factories\<close>. The state
  channel is made by \<^verbatim>\<open>New\<close> and never assigned again, so it is not nil.
\<close>

record 'f Collector =
  info :: BuildInfo
  rootCmd :: "Cmd option"
  logger :: "Logger option"
  service :: "service option"
  stateChannel :: "State chan"
  factories :: 'f
  parserProvider :: "ParserProvider option"
  stopTestChan :: "unit chan option"
  signalsChannel :: "string chan option"
  asyncErrorChannel :: "error chan option"

record 'f Parameters =
  Factories :: 'f
  ParamBuildInfo :: BuildInfo
  ParamParserProvider :: "ParserProvider option"
  LoggingOptions :: "string list"

subsection \<open>Actions, worlds and programs\<close>

text \<open>
  The actions a method performs on the world outside its local variables, in the order
  the statements run.
\<close>

datatype event =
    Log level string \<comment> \<open>\<^verbatim>\<open>col.logger.Info\<close>, \<^verbatim>\<open>Warn\<close>, \<^verbatim>\<open>Error\<close>\<close>
  | Send State \<comment> \<open>\<^verbatim>\<open>col.stateChannel <- s\<close>\<close>
  | CloseStateChannel \<comment> \<open>\<^verbatim>\<open>close(col.stateChannel)\<close>\<close>
  | SignalNotify \<comment> \<open>\<^verbatim>\<open>signal.Notify(col.signalsChannel, os.Interrupt, syscall.SIGTERM)\<close>\<close>
  | TelemetryInit "64 word" \<comment> \<open>\<^verbatim>\<open>applicationTelemetry.init\<close> with the ballast size\<close>
  | TelemetryShutdown \<comment> \<open>\<^verbatim>\<open>applicationTelemetry.shutdown()\<close>\<close>
  | ProviderGet \<comment> \<open>\<^verbatim>\<open>col.parserProvider.Get()\<close>\<close>
  | ProviderClose \<comment> \<open>\<^verbatim>\<open>Close(ctx)\<close> of a Closeable provider\<close>
  | ConfigLoad string \<comment> \<open>\<^verbatim>\<open>configloader.Load(cp, col.factories)\<close>\<close>
  | ConfigValidate string \<comment> \<open>\<^verbatim>\<open>cfg.Validate()\<close>\<close>
  | NewService string \<comment> \<open>\<^verbatim>\<open>newService(&settings{...})\<close>\<close>
  | ServiceStart service \<comment> \<open>\<^verbatim>\<open>service.Start(ctx)\<close>\<close>
  | ServiceShutdown service \<comment> \<open>\<^verbatim>\<open>Shutdown(ctx)\<close> of a service\<close>
  | SetService "service option" \<comment> \<open>an assignment to \<^verbatim>\<open>col.service\<close>\<close>
  | SpawnWatch \<comment> \<open>the \<^verbatim>\<open>go func() {...}()\<close> of the watch task\<close>
  | WatchForUpdate \<comment> \<open>\<^verbatim>\<open>watchable.WatchForUpdate()\<close>\<close>
  | ReloadService \<comment> \<open>a call of \<^verbatim>\<open>col.reloadService\<close>\<close>
  | KeepAlive \<comment> \<open>\<^verbatim>\<open>runtime.KeepAlive(ballast)\<close>\<close>

record 'f world =
  col :: "'f Collector"
  trace :: "event list"

datatype 'a result = Done 'a | Panicked string | BlockedForever | Fatal string

type_synonym ('f, 'a) prog = "'f world \<Rightarrow> 'a result \<times> 'f world"

definition ret :: "'a \<Rightarrow> ('f, 'a) prog" where
  "ret x = (\<lambda>w. (Done x, w))"

text \<open>Sequencing: a panic, an endless wait or a fatal error of the first part ends the whole.\<close>

definition thn :: "('f, 'a) prog \<Rightarrow> ('a \<Rightarrow> ('f, 'b) prog) \<Rightarrow> ('f, 'b) prog" where
  "thn m f = (\<lambda>w. case m w of
       (Done x, w') \<Rightarrow> f x w'
     | (Panicked p, w') \<Rightarrow> (Panicked p, w')
     | (BlockedForever, w') \<Rightarrow> (BlockedForever, w')
     | (Fatal m, w') \<Rightarrow> (Fatal m, w'))"

definition emit :: "event \<Rightarrow> ('f, unit) prog" where
  "emit ev = (\<lambda>w. (Done (), w\<lparr>trace := trace w @ [ev]\<rparr>))"

definition panic :: "string \<Rightarrow> ('f, 'a) prog" where
  "panic msg = (\<lambda>w. (Panicked msg, w))"

definition nil_dereference :: string where
  "nil_dereference = ''invalid memory address or nil pointer dereference''"

text \<open>A call of a logging method of \<^verbatim>\<open>col.logger\<close>; a nil \<^verbatim>\<open>*zap.Logger\<close> is dereferenced.\<close>

definition logAt :: "level \<Rightarrow> string \<Rightarrow> ('f, unit) prog" where
  "logAt lvl msg = (\<lambda>w. case logger (col w) of
       None \<Rightarrow> panic nil_dereference w
     | Some lg \<Rightarrow> emit (Log lvl msg) w)"

text \<open>
  \<^verbatim>\<open>ch <- v\<close>: a send on a closed channel panics; a send into a channel with room in its
  buffer is stored; any other send waits for a receiver, and no receiver is modelled.
\<close>

definition chan_send :: "'a chan \<Rightarrow> 'a \<Rightarrow> 'a chan result" where
  "chan_send ch v =
     (if ch_closed ch then Panicked ''send on closed channel''
      else if length (ch_buf ch) < ch_cap ch then Done (ch\<lparr>ch_buf := ch_buf ch @ [v]\<rparr>)
      else BlockedForever)"

text \<open>\<^verbatim>\<open>close(ch)\<close>: closing a nil channel or a closed channel panics.\<close>

definition chan_close :: "'a chan option \<Rightarrow> 'a chan result" where
  "chan_close c = (case c of
       None \<Rightarrow> Panicked ''close of nil channel''
     | Some ch \<Rightarrow> if ch_closed ch then Panicked ''close of closed channel''
                 else Done (ch\<lparr>ch_closed := True\<rparr>))"

definition sendState :: "State \<Rightarrow> ('f, unit) prog" where
  "sendState s = (\<lambda>w. case chan_send (stateChannel (col w)) s of
       Done ch \<Rightarrow> (Done (), w\<lparr>col := (col w)\<lparr>stateChannel := ch\<rparr>, trace := trace w @ [Send s]\<rparr>)
     | Panicked p \<Rightarrow> (Panicked p, w)
     | BlockedForever \<Rightarrow> (BlockedForever, w)
     | Fatal m \<Rightarrow> (Fatal m, w))"

definition closeStateChannel :: "('f, unit) prog" where
  "closeStateChannel = (\<lambda>w. case chan_close (Some (stateChannel (col w))) of
       Done ch \<Rightarrow> (Done (), w\<lparr>col := (col w)\<lparr>stateChannel := ch\<rparr>,
                              trace := trace w @ [CloseStateChannel]\<rparr>)
     | Panicked p \<Rightarrow> (Panicked p, w)
     | BlockedForever \<Rightarrow> (BlockedForever, w)
     | Fatal m \<Rightarrow> (Fatal m, w))"

subsection \<open>createMemoryBallast\<close>

text \<open>
  \<^verbatim>\<open>make([]byte, n)\<close> with \<open>n\<close> of type \<^verbatim>\<open>uint64\<close>. The runtime's \<^verbatim>\<open>makeslice\<close> panics with
  "len out of range" when the size is above \<^verbatim>\<open>maxAlloc\<close>. Below that it asks the operating
  system for the memory: \<open>alloc_ok\<close> tells whether it gets it, and when it does not the
  runtime ends the process with the fatal error "out of memory". A slice of no bytes
  needs no memory. Otherwise the slice holds \<open>n\<close> zero bytes.
\<close>

definition maxAlloc :: "64 word" where
  "maxAlloc = 281474976710656"

definition fatal :: "string \<Rightarrow> ('f, 'a) prog" where
  "fatal msg = (\<lambda>w. (Fatal msg, w))"

definition make_bytes :: "bool \<Rightarrow> 64 word \<Rightarrow> ('f, 8 word list) prog" where
  "make_bytes alloc_ok n =
     (if maxAlloc < n then panic ''makeslice: len out of range''
      else if n \<noteq> 0 \<and> \<not> alloc_ok then fatal ''runtime: out of memory''
      else ret (replicate (unat n) 0))"

text \<open>
  \<open>ballastSizeMiB\<close> is what \<^verbatim>\<open>builder.MemBallastSize()\<close> returns: an \<^verbatim>\<open>int\<close>, here its 64
  bits, compared as a signed number (\<open><s\<close>). The conversion \<^verbatim>\<open>uint64(ballastSizeMiB)\<close> keeps
  the bits. The result is the pair of the buffer (\<^verbatim>\<open>None\<close> for a nil slice) and its size in
  bytes; the product is computed in \<^verbatim>\<open>uint64\<close> and wraps around.
\<close>

definition createMemoryBallast ::
  "bool \<Rightarrow> 64 word \<Rightarrow> ('f, 8 word list option \<times> 64 word) prog" where
  "createMemoryBallast alloc_ok ballastSizeMiB =
     (if 0 <s ballastSizeMiB then
        (let ballastSizeBytes = ballastSizeMiB * 1024 * 1024 in
         thn (make_bytes alloc_ok ballastSizeBytes) (\<lambda>ballast.
         thn (logAt InfoLevel ''Using memory ballast'') (\<lambda>_.
         ret (Some ballast, ballastSizeBytes))))
      else ret (None, 0))"

subsection \<open>What the collaborators return\<close>

text \<open>
  The results of the calls \<^verbatim>\<open>setupConfigurationComponents\<close> makes, in call order:
  \<^verbatim>\<open>col.parserProvider.Get()\<close>, \<^verbatim>\<open>configloader.Load\<close>, \<^verbatim>\<open>cfg.Validate()\<close>, \<^verbatim>\<open>newService\<close> and
  \<^verbatim>\<open>service.Start\<close>. A parser and a configuration are known by a name. A result is only
  looked at when its call is reached.
\<close>

record setup_results =
  get_res :: "error + string"
  load_res :: "error + string"
  validate_res :: "error option"
  newService_res :: "error + service"
  start_res :: "error option"

text \<open>Which case of the \<^verbatim>\<open>select\<close> of \<^verbatim>\<open>runAndWaitForShutdownEvent\<close> fires.\<close>

datatype trigger = AsyncError error | OSSignal string | StopTest

text \<open>
  One run of \<^verbatim>\<open>execute\<close>: the value of \<^verbatim>\<open>builder.MemBallastSize()\<close>, whether the runtime
  gets the memory of the ballast from the operating system, the result of
  \<^verbatim>\<open>applicationTelemetry.init\<close>, the results of the setup, the trigger that fires (\<open>None\<close>
  when none ever does), and the results of the provider's \<^verbatim>\<open>Close\<close>, the service's
  \<^verbatim>\<open>Shutdown\<close> and \<^verbatim>\<open>applicationTelemetry.shutdown\<close> in the shutdown sequence.
\<close>

record run_results =
  memBallastSize :: "64 word"
  ballast_alloc_ok :: bool
  telemetry_init_res :: "error option"
  setup_res :: setup_results
  trigger_res :: "trigger option"
  close_res :: "error option"
  shutdown_res :: "error option"
  telemetry_shutdown_res :: "error option"

text \<open>One call of \<^verbatim>\<open>reloadService\<close>: the provider's \<^verbatim>\<open>Close\<close>, the retiring service's
  \<^verbatim>\<open>Shutdown\<close>, and the setup that follows.\<close>

record reload_results =
  rl_close_res :: "error option"
  rl_shutdown_res :: "error option"
  rl_setup_res :: setup_results

subsection \<open>The methods\<close>

definition getCol :: "('f, 'f Collector) prog" where
  "getCol = (\<lambda>w. (Done (col w), w))"

definition modify :: "('f Collector \<Rightarrow> 'f Collector) \<Rightarrow> ('f, unit) prog" where
  "modify f = (\<lambda>w. (Done (), w\<lparr>col := f (col w)\<rparr>))"

definition block :: "('f, 'a) prog" where
  "block = (\<lambda>w. (BlockedForever, w))"

text \<open>
  The type assertions \<^verbatim>\<open>col.parserProvider.(parserprovider.Closeable)\<close> and
  \<^verbatim>\<open>col.parserProvider.(parserprovider.Watchable)\<close>: not ok on a nil interface.
\<close>

definition implementsCloseable :: "'f Collector \<Rightarrow> bool" where
  "implementsCloseable c = (case parserProvider c of None \<Rightarrow> False | Some p \<Rightarrow> isCloseable p)"

definition implementsWatchable :: "'f Collector \<Rightarrow> bool" where
  "implementsWatchable c = (case parserProvider c of None \<Rightarrow> False | Some p \<Rightarrow> isWatchable p)"

definition setupTelemetry :: "64 word \<Rightarrow> error option \<Rightarrow> ('f, error option) prog" where
  "setupTelemetry ballastSizeBytes init_res =
     thn (logAt InfoLevel ''Setting up own telemetry...'') (\<lambda>_.
     thn (emit (TelemetryInit ballastSizeBytes)) (\<lambda>_.
     case init_res of
       Some err \<Rightarrow> ret (Some (Wrap ''failed to initialize telemetry: '' err))
     | None \<Rightarrow> ret None))"

definition runAndWaitForShutdownEvent :: "trigger option \<Rightarrow> ('f, unit) prog" where
  "runAndWaitForShutdownEvent trig =
     thn (logAt InfoLevel ''Everything is ready. Begin running and processing data.'') (\<lambda>_.
     thn (modify (\<lambda>c. c\<lparr>signalsChannel := Some (make_chan 1)\<rparr>)) (\<lambda>_.
     thn (emit SignalNotify) (\<lambda>_.
     thn (modify (\<lambda>c. c\<lparr>stopTestChan := Some (make_chan 0)\<rparr>)) (\<lambda>_.
     thn (sendState Running) (\<lambda>_.
     thn (case trig of
            None \<Rightarrow> block
          | Some (AsyncError err) \<Rightarrow>
              logAt ErrorLevel ''Asynchronous error received, terminating process''
          | Some (OSSignal s) \<Rightarrow> logAt InfoLevel ''Received signal from OS''
          | Some StopTest \<Rightarrow> logAt InfoLevel ''Received stop test request'') (\<lambda>_.
     sendState Closing))))))"

definition setupConfigurationComponents :: "setup_results \<Rightarrow> ('f, error option) prog" where
  "setupConfigurationComponents r =
     thn (logAt InfoLevel ''Loading configuration...'') (\<lambda>_.
     thn getCol (\<lambda>c.
     case parserProvider c of
       None \<Rightarrow> panic nil_dereference
     | Some provider \<Rightarrow>
     thn (emit ProviderGet) (\<lambda>_.
     case get_res r of
       Inl err \<Rightarrow> ret (Some (Wrap ''cannot load configuration's parser: '' err))
     | Inr cp \<Rightarrow>
     thn (emit (ConfigLoad cp)) (\<lambda>_.
     case load_res r of
       Inl err \<Rightarrow> ret (Some (Wrap ''cannot load configuration: '' err))
     | Inr cfg \<Rightarrow>
     thn (emit (ConfigValidate cfg)) (\<lambda>_.
     case validate_res r of
       Some err \<Rightarrow> ret (Some (Wrap ''invalid configuration: '' err))
     | None \<Rightarrow>
     thn (logAt InfoLevel ''Applying configuration...'') (\<lambda>_.
     thn (emit (NewService cfg)) (\<lambda>_.
     case newService_res r of
       Inl err \<Rightarrow> ret (Some err)
     | Inr svc \<Rightarrow>
     thn (emit (ServiceStart svc)) (\<lambda>_.
     case start_res r of
       Some err \<Rightarrow> ret (Some err)
     | None \<Rightarrow>
     thn (modify (\<lambda>c. c\<lparr>service := Some svc\<rparr>)) (\<lambda>_.
     thn (emit (SetService (Some svc))) (\<lambda>_.
     thn getCol (\<lambda>c.
     thn (if implementsWatchable c then emit SpawnWatch else ret ()) (\<lambda>_.
     ret None))))))))))))"

text \<open>
  The shutdown sequence of \<^verbatim>\<open>execute\<close>, from \<^verbatim>\<open>var errs []error\<close> to the \<^verbatim>\<open>return\<close>; the three
  lists are \<^verbatim>\<open>errs\<close> after each of the three steps.
\<close>

definition execute_shutdown ::
  "error option \<Rightarrow> error option \<Rightarrow> error option \<Rightarrow> ('f, error option) prog" where
  "execute_shutdown close_r shutdown_r telemetry_r =
     thn (emit KeepAlive) (\<lambda>_.
     thn (logAt InfoLevel ''Starting shutdown...'') (\<lambda>_.
     thn getCol (\<lambda>c.
     thn (if implementsCloseable c then
            thn (emit ProviderClose) (\<lambda>_.
            case close_r of
              Some err \<Rightarrow> ret [Wrap ''failed to close config: '' err]
            | None \<Rightarrow> ret [])
          else ret []) (\<lambda>errs1.
     thn getCol (\<lambda>c.
     thn (case service c of
            Some svc \<Rightarrow>
              thn (emit (ServiceShutdown svc)) (\<lambda>_.
              case shutdown_r of
                Some err \<Rightarrow> ret (errs1 @ [Wrap ''failed to shutdown service: '' err])
              | None \<Rightarrow> ret errs1)
          | None \<Rightarrow> ret errs1) (\<lambda>errs2.
     thn (emit TelemetryShutdown) (\<lambda>_.
     thn (case telemetry_r of
            Some err \<Rightarrow>
              ret (errs2 @ [Wrap ''failed to shutdown application telemetry: '' err])
          | None \<Rightarrow> ret errs2) (\<lambda>errs3.
     thn (logAt InfoLevel ''Shutdown complete.'') (\<lambda>_.
     thn (sendState Closed) (\<lambda>_.
     thn closeStateChannel (\<lambda>_.
     ret (Combine errs3))))))))))))"

definition execute :: "run_results \<Rightarrow> ('f, error option) prog" where
  "execute r =
     thn getCol (\<lambda>c.
     thn (logAt InfoLevel (''Starting '' @ Command (info c) @ ''...'')) (\<lambda>_.
     thn (sendState Starting) (\<lambda>_.
     thn (createMemoryBallast (ballast_alloc_ok r) (memBallastSize r))
       (\<lambda>(ballast, ballastSizeBytes).
     thn (modify (\<lambda>c. c\<lparr>asyncErrorChannel := Some (make_chan 0)\<rparr>)) (\<lambda>_.
     thn (setupTelemetry ballastSizeBytes (telemetry_init_res r)) (\<lambda>err.
     case err of
       Some e \<Rightarrow> ret (Some e)
     | None \<Rightarrow>
     thn (setupConfigurationComponents (setup_res r)) (\<lambda>err.
     case err of
       Some e \<Rightarrow> ret (Some e)
     | None \<Rightarrow>
     thn (runAndWaitForShutdownEvent (trigger_res r)) (\<lambda>_.
     execute_shutdown (close_res r) (shutdown_res r) (telemetry_shutdown_res r)))))))))"

definition reloadService :: "reload_results \<Rightarrow> ('f, error option) prog" where
  "reloadService r =
     thn (emit ReloadService) (\<lambda>_.
     thn getCol (\<lambda>c.
     thn (if implementsCloseable c then
            thn (emit ProviderClose) (\<lambda>_.
            case rl_close_res r of
              Some err \<Rightarrow> ret (Some (Wrap ''failed close current config provider: '' err))
            | None \<Rightarrow> ret None)
          else ret None) (\<lambda>failed.
     case failed of
       Some e \<Rightarrow> ret (Some e)
     | None \<Rightarrow>
     thn getCol (\<lambda>c.
     thn (case service c of
            Some retiringService \<Rightarrow>
              thn (modify (\<lambda>c. c\<lparr>service := None\<rparr>)) (\<lambda>_.
              thn (emit (SetService None)) (\<lambda>_.
              thn (emit (ServiceShutdown retiringService)) (\<lambda>_.
              case rl_shutdown_res r of
                Some err \<Rightarrow> ret (Some (Wrap ''failed to shutdown the retiring config: '' err))
              | None \<Rightarrow> ret None)))
          | None \<Rightarrow> ret None) (\<lambda>failed.
     case failed of
       Some e \<Rightarrow> ret (Some e)
     | None \<Rightarrow>
     thn (setupConfigurationComponents (rl_setup_res r)) (\<lambda>err.
     case err of
       Some e \<Rightarrow> ret (Some (Wrap ''failed to setup configuration components: '' e))
     | None \<Rightarrow> ret None))))))"

text \<open>
  The body of the goroutine that \<^verbatim>\<open>setupConfigurationComponents\<close> starts for a Watchable
  provider, from the return of \<^verbatim>\<open>WatchForUpdate\<close> with \<open>watch_res\<close>. The error that
  \<^verbatim>\<open>reloadService\<close> returns is dropped, as in the source.
\<close>

definition watchTask :: "error option \<Rightarrow> reload_results \<Rightarrow> ('f, unit) prog" where
  "watchTask watch_res r =
     thn (emit WatchForUpdate) (\<lambda>_.
     if errors_Is watch_res ErrSessionClosed then
       logAt InfoLevel ''Config WatchForUpdate closed''
     else
       thn (logAt WarnLevel ''Config WatchForUpdated exited'') (\<lambda>_.
       thn (reloadService r) (\<lambda>_.
       ret ())))"

text \<open>
  \<^verbatim>\<open>Shutdown\<close>: when \<^verbatim>\<open>close(col.stopTestChan)\<close> panics, the deferred function recovers the
  panic and logs; the log call itself is not protected.
\<close>

definition Shutdown :: "('f, unit) prog" where
  "Shutdown = (\<lambda>w. case chan_close (stopTestChan (col w)) of
       Done ch \<Rightarrow> (Done (), w\<lparr>col := (col w)\<lparr>stopTestChan := Some ch\<rparr>\<rparr>)
     | Panicked p \<Rightarrow> logAt InfoLevel ''stopTestChan already closed'' w
     | BlockedForever \<Rightarrow> (BlockedForever, w)
     | Fatal m \<Rightarrow> (Fatal m, w))"

text \<open>
  \<^verbatim>\<open>New\<close>. \<^verbatim>\<open>configcheck.ValidateConfigFromFactories\<close> and \<^verbatim>\<open>parserprovider.Default()\<close> are not
  part of the sources: the first is a parameter, a function from the factories to its
  error; the second is a parameter, the interface value it returns. The result is the
  pair that the Go function returns.
\<close>

definition New ::
  "('f \<Rightarrow> error option) \<Rightarrow> ParserProvider option \<Rightarrow> 'f Parameters \<Rightarrow>
   'f Collector option \<times> error option" where
  "New ValidateConfigFromFactories Default params =
     (case ValidateConfigFromFactories (Factories params) of
        Some err \<Rightarrow> (None, Some err)
      | None \<Rightarrow>
          (let c = \<lparr>info = ParamBuildInfo params, rootCmd = None, logger = None,
                    service = None, stateChannel = make_chan (State_int Closed + 1),
                    factories = Factories params, parserProvider = None,
                    stopTestChan = None, signalsChannel = None, asyncErrorChannel = None\<rparr>;
               cmd = \<lparr>Use = Command (ParamBuildInfo params),
                      CmdVersion = Version (ParamBuildInfo params), SilenceUsage = False\<rparr>;
               c = c\<lparr>rootCmd := Some cmd\<rparr>;
               provider = (case ParamParserProvider params of
                             None \<Rightarrow> Default
                           | Some p \<Rightarrow> Some p);
               c = c\<lparr>parserProvider := provider\<rparr>
           in (Some c, None)))"

text \<open>
  The \<^verbatim>\<open>RunE\<close> closure that \<^verbatim>\<open>New\<close> installs in the root command; \<open>newLogger_res\<close> is the
  result of \<^verbatim>\<open>newLogger(params.LoggingOptions)\<close>, which is assigned to \<^verbatim>\<open>col.logger\<close> before
  the error is tested (a nil logger when there is an error).
\<close>

definition RunE :: "error + Logger \<Rightarrow> run_results \<Rightarrow> ('f, error option) prog" where
  "RunE newLogger_res r =
     (case newLogger_res of
        Inl err \<Rightarrow>
          thn (modify (\<lambda>c. c\<lparr>logger := None\<rparr>)) (\<lambda>_.
          ret (Some (Wrap ''failed to get logger: '' err)))
      | Inr lg \<Rightarrow>
          thn (modify (\<lambda>c. c\<lparr>logger := Some lg\<rparr>)) (\<lambda>_.
          execute r))"

definition GetStateChannel :: "'f Collector \<Rightarrow> State chan" where
  "GetStateChannel c = stateChannel c"

subsection \<open>Notions used in the statements\<close>

text \<open>The actions on the state channel among a list of actions.\<close>

fun is_state_event :: "event \<Rightarrow> bool" where
  "is_state_event (Send s) = True"
| "is_state_event CloseStateChannel = True"
| "is_state_event ev = False"

definition state_events :: "event list \<Rightarrow> event list" where
  "state_events evs = filter is_state_event evs"

text \<open>The state channel is open and its buffer has room for \<open>k\<close> more values.\<close>

definition can_publish :: "nat \<Rightarrow> 'f world \<Rightarrow> bool" where
  "can_publish k w =
     (\<not> ch_closed (stateChannel (col w)) \<and>
      length (ch_buf (stateChannel (col w))) + k \<le> ch_cap (stateChannel (col w)))"

text \<open>Every step of the configuration setup succeeds.\<close>

definition setup_succeeds :: "setup_results \<Rightarrow> bool" where
  "setup_succeeds r =
     (\<not> isl (get_res r) \<and> \<not> isl (load_res r) \<and> validate_res r = None \<and>
      \<not> isl (newService_res r) \<and> start_res r = None)"

text \<open>
  The ballast of the run is allocated: when a ballast is configured, its byte count is
  within \<^verbatim>\<open>maxAlloc\<close> and, unless it is 0, the runtime gets the memory.
\<close>

definition ballast_fits :: "run_results \<Rightarrow> bool" where
  "ballast_fits r =
     (0 <s memBallastSize r \<longrightarrow>
        memBallastSize r * 1024 * 1024 \<le> maxAlloc \<and>
        (memBallastSize r * 1024 * 1024 = 0 \<or> ballast_alloc_ok r))"

text \<open>
  The world of \<^verbatim>\<open>execute\<close> when \<^verbatim>\<open>setupTelemetry\<close> has returned: \<^verbatim>\<open>Starting\<close> is published, the
  ballast and the async error channel are made, the telemetry has been initialised with
  the ballast size.
\<close>

definition ballast_bytes :: "64 word \<Rightarrow> 64 word" where
  "ballast_bytes n = (if 0 <s n then n * 1024 * 1024 else 0)"

definition telemetry_started :: "run_results \<Rightarrow> 'f world \<Rightarrow> 'f world" where
  "telemetry_started r w =
     w\<lparr>col := (col w)
          \<lparr>stateChannel := (stateChannel (col w))
             \<lparr>ch_buf := ch_buf (stateChannel (col w)) @ [Starting]\<rparr>,
           asyncErrorChannel := Some (make_chan 0)\<rparr>,
       trace := trace w @
         [Log InfoLevel (''Starting '' @ Command (info (col w)) @ ''...''), Send Starting] @
         (if 0 <s memBallastSize r then [Log InfoLevel ''Using memory ballast''] else []) @
         [Log InfoLevel ''Setting up own telemetry...'',
          TelemetryInit (ballast_bytes (memBallastSize r))]\<rparr>"

text \<open>
  The world of \<^verbatim>\<open>reloadService\<close> when the provider has been closed, if it is Closeable, and
  the world when, after that, the service \<open>svc\<close> has been retired: the reference cleared and
  its \<^verbatim>\<open>Shutdown\<close> called.
\<close>

definition reload_started :: "'f world \<Rightarrow> 'f world" where
  "reload_started w =
     w\<lparr>trace := trace w @ [ReloadService] @
        (if implementsCloseable (col w) then [ProviderClose] else [])\<rparr>"

definition retired :: "service \<Rightarrow> 'f world \<Rightarrow> 'f world" where
  "retired svc w =
     w\<lparr>col := (col w)\<lparr>service := None\<rparr>,
       trace := trace w @ [ReloadService] @
        (if implementsCloseable (col w) then [ProviderClose] else []) @
        [SetService None, ServiceShutdown svc]\<rparr>"

text \<open>What a step of the shutdown sequence appends to \<^verbatim>\<open>errs\<close>: its error, wrapped, if it has one.\<close>

definition failure :: "string \<Rightarrow> error option \<Rightarrow> error list" where
  "failure msg res = (case res of Some err \<Rightarrow> [Wrap msg err] | None \<Rightarrow> [])"

text \<open>The actions of a teardown: the steps of the shutdown sequence.\<close>

fun is_teardown_event :: "event \<Rightarrow> bool" where
  "is_teardown_event KeepAlive = True"
| "is_teardown_event ProviderClose = True"
| "is_teardown_event (ServiceShutdown svc) = True"
| "is_teardown_event TelemetryShutdown = True"
| "is_teardown_event ev = False"

text \<open>
  The actions of loading and applying a configuration, up to the start of the service;
  recording the new service and starting the watch task are not among them.
\<close>

fun is_setup_event :: "event \<Rightarrow> bool" where
  "is_setup_event (Log lvl msg) = True"
| "is_setup_event ProviderGet = True"
| "is_setup_event (ConfigLoad cp) = True"
| "is_setup_event (ConfigValidate cfg) = True"
| "is_setup_event (NewService cfg) = True"
| "is_setup_event (ServiceStart svc) = True"
| "is_setup_event ev = False"

text \<open>\<open>n\<close> calls of a method, one after the other.\<close>

fun repeated :: "nat \<Rightarrow> ('f, unit) prog \<Rightarrow> ('f, unit) prog" where
  "repeated 0 m = ret ()"
| "repeated (Suc n) m = thn m (\<lambda>_. repeated n m)"

subsection \<open>Example inputs\<close>

definition example_provider :: ParserProvider where
  "example_provider = \<lparr>providerName = ''file'', isWatchable = True, isCloseable = True\<rparr>"

definition example_params :: "unit Parameters" where
  "example_params =
     \<lparr>Factories = (), ParamBuildInfo = DefaultBinaryInfo,
      ParamParserProvider = Some example_provider, LoggingOptions = []\<rparr>"

text \<open>The Collector that \<^verbatim>\<open>New\<close> builds from \<open>example_params\<close>, with the logger of \<^verbatim>\<open>RunE\<close>.\<close>

definition example_collector :: "unit Collector" where
  "example_collector =
     \<lparr>info = DefaultBinaryInfo,
      rootCmd = Some \<lparr>Use = ''otelcol'', CmdVersion = ''latest'', SilenceUsage = False\<rparr>,
      logger = Some (ZapLogger []), service = None, stateChannel = make_chan 4,
      factories = (), parserProvider = Some example_provider, stopTestChan = None,
      signalsChannel = None, asyncErrorChannel = None\<rparr>"

definition example_world :: "unit world" where
  "example_world = \<lparr>col = example_collector, trace = []\<rparr>"

text \<open>A Collector that is running, after \<^verbatim>\<open>Shutdown\<close> has closed its stop channel.\<close>

definition example_stopped :: "unit world" where
  "example_stopped =
     \<lparr>col = example_collector
        \<lparr>service := Some (Service 1),
         stateChannel := \<lparr>ch_buf = [Starting, Running], ch_cap = 4, ch_closed = False\<rparr>,
         stopTestChan := Some \<lparr>ch_buf = [], ch_cap = 0, ch_closed = True\<rparr>,
         signalsChannel := Some (make_chan 1), asyncErrorChannel := Some (make_chan 0)\<rparr>,
      trace = []\<rparr>"

text \<open>A Collector that is running, with the service started by its setup.\<close>

definition example_running :: "unit world" where
  "example_running =
     \<lparr>col = example_collector
        \<lparr>service := Some (Service 1),
         stateChannel := \<lparr>ch_buf = [Starting, Running], ch_cap = 4, ch_closed = False\<rparr>,
         stopTestChan := Some (make_chan 0),
         signalsChannel := Some (make_chan 1), asyncErrorChannel := Some (make_chan 0)\<rparr>,
      trace = []\<rparr>"

definition example_setup :: setup_results where
  "example_setup =
     \<lparr>get_res = Inr ''parser'', load_res = Inr ''config'', validate_res = None,
      newService_res = Inr (Service 1), start_res = None\<rparr>"

definition example_run :: run_results where
  "example_run =
     \<lparr>memBallastSize = 0, ballast_alloc_ok = True, telemetry_init_res = None,
      setup_res = example_setup,
      trigger_res = Some (OSSignal ''terminated''), close_res = None, shutdown_res = None,
      telemetry_shutdown_res = None\<rparr>"

text \<open>A setup in which the configuration does not validate; runs with it.\<close>

definition example_invalid_setup :: setup_results where
  "example_invalid_setup = example_setup\<lparr>validate_res := Some (Err ''no pipelines'')\<rparr>"

definition example_failing_run :: run_results where
  "example_failing_run = example_run\<lparr>setup_res := example_invalid_setup\<rparr>"

definition example_reload :: reload_results where
  "example_reload =
     \<lparr>rl_close_res = None, rl_shutdown_res = None,
      rl_setup_res = example_setup\<lparr>newService_res := Inr (Service 2)\<rparr>\<rparr>"

section \<open>Properties\<close>

subsection \<open>Steps that succeed\<close>

lemma logAt_Done:
  "logger (col w) \<noteq> None \<Longrightarrow>
   logAt lvl msg w = (Done (), w\<lparr>trace := trace w @ [Log lvl msg]\<rparr>)"
  by (auto simp: logAt_def emit_def)

lemma make_bytes_Done:
  "n \<le> maxAlloc \<Longrightarrow> n = 0 \<or> alloc_ok \<Longrightarrow>
   make_bytes alloc_ok n w = (Done (replicate (unat n) 0), w)"
  by (auto simp: make_bytes_def ret_def)

lemma sendState_Done:
  "\<not> ch_closed (stateChannel (col w)) \<Longrightarrow>
   length (ch_buf (stateChannel (col w))) < ch_cap (stateChannel (col w)) \<Longrightarrow>
   sendState s w =
     (Done (), w\<lparr>col := (col w)\<lparr>stateChannel :=
                    (stateChannel (col w))\<lparr>ch_buf := ch_buf (stateChannel (col w)) @ [s]\<rparr>\<rparr>,
                 trace := trace w @ [Send s]\<rparr>)"
  by (simp add: sendState_def chan_send_def)

lemma closeStateChannel_Done:
  "\<not> ch_closed (stateChannel (col w)) \<Longrightarrow>
   closeStateChannel w =
     (Done (), w\<lparr>col := (col w)\<lparr>stateChannel := (stateChannel (col w))\<lparr>ch_closed := True\<rparr>\<rparr>,
                 trace := trace w @ [CloseStateChannel]\<rparr>)"
  by (simp add: closeStateChannel_def chan_close_def)

lemmas steps =
  thn_def ret_def emit_def getCol_def modify_def logAt_Done sendState_Done
  closeStateChannel_Done

lemma createMemoryBallast_effect:
  "ballast_fits r \<Longrightarrow> logger (col w) \<noteq> None \<Longrightarrow> n = memBallastSize r \<Longrightarrow>
   createMemoryBallast (ballast_alloc_ok r) n w =
     (Done (if 0 <s n then (Some (replicate (unat (n * 1024 * 1024)) 0), n * 1024 * 1024)
            else (None, 0)),
      w\<lparr>trace := trace w @ (if 0 <s n then [Log InfoLevel ''Using memory ballast''] else [])\<rparr>)"
  unfolding createMemoryBallast_def Let_def ballast_fits_def
  by (simp add: make_bytes_Done steps)

lemma setupTelemetry_effect:
  "logger (col w) \<noteq> None \<Longrightarrow>
   setupTelemetry sz init_res w =
     (Done (case init_res of
              Some err \<Rightarrow> Some (Wrap ''failed to initialize telemetry: '' err)
            | None \<Rightarrow> None),
      w\<lparr>trace := trace w @ [Log InfoLevel ''Setting up own telemetry...'', TelemetryInit sz]\<rparr>)"
  by (simp add: setupTelemetry_def steps split: option.split)

lemma setupConfigurationComponents_success:
  assumes "logger (col w) \<noteq> None" and "parserProvider (col w) = Some p"
    and "get_res r = Inr cp" and "load_res r = Inr cfg" and "validate_res r = None"
    and "newService_res r = Inr svc" and "start_res r = None"
  shows "setupConfigurationComponents r w =
     (Done None,
      w\<lparr>col := (col w)\<lparr>service := Some svc\<rparr>,
        trace := trace w @
          [Log InfoLevel ''Loading configuration...'', ProviderGet, ConfigLoad cp,
           ConfigValidate cfg, Log InfoLevel ''Applying configuration...'', NewService cfg,
           ServiceStart svc, SetService (Some svc)] @
          (if isWatchable p then [SpawnWatch] else [])\<rparr>)"
  using assms by (simp add: setupConfigurationComponents_def implementsWatchable_def steps)

lemma setupConfigurationComponents_failure:
  assumes "logger (col w) \<noteq> None" and "parserProvider (col w) \<noteq> None"
    and "\<not> setup_succeeds r"
  shows "\<exists>e w' evs. setupConfigurationComponents r w = (Done (Some e), w') \<and> col w' = col w \<and>
           trace w' = trace w @ evs \<and> (\<forall>ev \<in> set evs. is_setup_event ev)"
  using assms
  by (cases "get_res r"; cases "load_res r"; cases "validate_res r";
      cases "newService_res r"; cases "start_res r")
     (auto simp add: setupConfigurationComponents_def setup_succeeds_def steps)

lemma runAndWaitForShutdownEvent_effect:
  assumes "logger (col w) \<noteq> None" and "can_publish 2 w"
  shows "runAndWaitForShutdownEvent (Some t) w =
     (Done (),
      w\<lparr>col := (col w)\<lparr>signalsChannel := Some (make_chan 1), stopTestChan := Some (make_chan 0),
                        stateChannel := (stateChannel (col w))
                          \<lparr>ch_buf := ch_buf (stateChannel (col w)) @ [Running, Closing]\<rparr>\<rparr>,
        trace := trace w @
          [Log InfoLevel ''Everything is ready. Begin running and processing data.'',
           SignalNotify, Send Running,
           (case t of
              AsyncError err \<Rightarrow> Log ErrorLevel ''Asynchronous error received, terminating process''
            | OSSignal s \<Rightarrow> Log InfoLevel ''Received signal from OS''
            | StopTest \<Rightarrow> Log InfoLevel ''Received stop test request''),
           Send Closing]\<rparr>)"
  using assms by (cases t) (simp_all add: runAndWaitForShutdownEvent_def can_publish_def steps)

lemma execute_shutdown_effect:
  assumes "logger (col w) \<noteq> None" and "can_publish 1 w"
  shows "execute_shutdown cr sr tr w =
     (Done (Combine
        ((if implementsCloseable (col w) then failure ''failed to close config: '' cr else []) @
         (if service (col w) \<noteq> None then failure ''failed to shutdown service: '' sr else []) @
         failure ''failed to shutdown application telemetry: '' tr)),
      w\<lparr>col := (col w)\<lparr>stateChannel := (stateChannel (col w))
                          \<lparr>ch_buf := ch_buf (stateChannel (col w)) @ [Closed],
                           ch_closed := True\<rparr>\<rparr>,
        trace := trace w @ [KeepAlive, Log InfoLevel ''Starting shutdown...''] @
          (if implementsCloseable (col w) then [ProviderClose] else []) @
          (case service (col w) of Some svc \<Rightarrow> [ServiceShutdown svc] | None \<Rightarrow> []) @
          [TelemetryShutdown, Log InfoLevel ''Shutdown complete.'', Send Closed,
           CloseStateChannel]\<rparr>)"
  using assms
  by (cases "service (col w)"; cases cr; cases sr; cases tr)
     (simp_all add: execute_shutdown_def can_publish_def failure_def steps)

lemma execute_unfold:
  assumes "logger (col w) \<noteq> None" and "can_publish 1 w" and "ballast_fits r"
  shows "execute r w =
     (case telemetry_init_res r of
        Some err \<Rightarrow>
          (Done (Some (Wrap ''failed to initialize telemetry: '' err)), telemetry_started r w)
      | None \<Rightarrow>
          thn (setupConfigurationComponents (setup_res r)) (\<lambda>err.
          case err of
            Some e \<Rightarrow> ret (Some e)
          | None \<Rightarrow>
          thn (runAndWaitForShutdownEvent (trigger_res r)) (\<lambda>_.
          execute_shutdown (close_res r) (shutdown_res r) (telemetry_shutdown_res r)))
          (telemetry_started r w))"
  using assms
  by (cases "telemetry_init_res r")
     (simp_all add: execute_def createMemoryBallast_effect setupTelemetry_effect steps
        can_publish_def telemetry_started_def ballast_bytes_def)

lemma telemetry_started_simps:
  "logger (col (telemetry_started r w)) = logger (col w)"
  "parserProvider (col (telemetry_started r w)) = parserProvider (col w)"
  "service (col (telemetry_started r w)) = service (col w)"
  "ch_closed (stateChannel (col (telemetry_started r w))) = ch_closed (stateChannel (col w))"
  "ch_cap (stateChannel (col (telemetry_started r w))) = ch_cap (stateChannel (col w))"
  "ch_buf (stateChannel (col (telemetry_started r w))) = ch_buf (stateChannel (col w)) @ [Starting]"
  by (simp_all add: telemetry_started_def)

lemma telemetry_started_trace:
  "\<exists>evs. trace (telemetry_started r w) = trace w @ evs \<and> state_events evs = [Send Starting] \<and>
     filter is_teardown_event evs = [] \<and> (\<forall>s. SetService s \<notin> set evs) \<and>
     TelemetryInit (ballast_bytes (memBallastSize r)) \<in> set evs"
  by (simp add: telemetry_started_def state_events_def)

lemma setup_event_other:
  assumes "is_setup_event ev"
  shows "\<not> is_state_event ev" and "\<not> is_teardown_event ev" and "ev \<noteq> SetService s"
    and "ev \<noteq> ReloadService" and "ev \<noteq> SpawnWatch"
  using assms by (cases ev; simp)+

lemma setup_events_quiet:
  assumes "\<forall>ev \<in> set evs. is_setup_event ev"
  shows "state_events evs = []" and "filter is_teardown_event evs = []"
    and "SetService s \<notin> set evs" and "ReloadService \<notin> set evs"
  using assms setup_event_other by (auto simp: state_events_def filter_empty_conv)

lemma telemetry_failure_is_returned:
  assumes "logger (col w) \<noteq> None" and "telemetry_init_res r = Some err"
  shows "\<exists>sz w1. setupTelemetry sz (telemetry_init_res r) w1 =
           (Done (Some (Wrap ''failed to initialize telemetry: '' err)), telemetry_started r w)"
proof -
  define w1 where "w1 = w\<lparr>col := (col w)
          \<lparr>stateChannel := (stateChannel (col w))
             \<lparr>ch_buf := ch_buf (stateChannel (col w)) @ [Starting]\<rparr>,
           asyncErrorChannel := Some (make_chan 0)\<rparr>,
       trace := trace w @
         [Log InfoLevel (''Starting '' @ Command (info (col w)) @ ''...''), Send Starting] @
         (if 0 <s memBallastSize r then [Log InfoLevel ''Using memory ballast''] else [])\<rparr>"
  have "logger (col w1) \<noteq> None"
    using assms(1) by (simp add: w1_def)
  then have "setupTelemetry (ballast_bytes (memBallastSize r)) (telemetry_init_res r) w1 =
      (Done (Some (Wrap ''failed to initialize telemetry: '' err)),
       w1\<lparr>trace := trace w1 @ [Log InfoLevel ''Setting up own telemetry...'',
                                TelemetryInit (ballast_bytes (memBallastSize r))]\<rparr>)"
    using assms(2) by (simp add: setupTelemetry_effect)
  moreover have "w1\<lparr>trace := trace w1 @ [Log InfoLevel ''Setting up own telemetry...'',
                                TelemetryInit (ballast_bytes (memBallastSize r))]\<rparr> =
      telemetry_started r w"
    by (simp add: w1_def telemetry_started_def)
  ultimately show ?thesis
    by metis
qed

lemma reloadService_unfold:
  "reloadService r w =
     (if implementsCloseable (col w) \<and> rl_close_res r \<noteq> None then
        (Done (Some (Wrap ''failed close current config provider: '' (the (rl_close_res r)))),
         reload_started w)
      else case service (col w) of
        None \<Rightarrow>
          thn (setupConfigurationComponents (rl_setup_res r)) (\<lambda>err.
          case err of
            Some e \<Rightarrow> ret (Some (Wrap ''failed to setup configuration components: '' e))
          | None \<Rightarrow> ret None) (reload_started w)
      | Some svc \<Rightarrow>
          (case rl_shutdown_res r of
             Some err \<Rightarrow>
               (Done (Some (Wrap ''failed to shutdown the retiring config: '' err)),
                retired svc w)
           | None \<Rightarrow>
               thn (setupConfigurationComponents (rl_setup_res r)) (\<lambda>err.
               case err of
                 Some e \<Rightarrow> ret (Some (Wrap ''failed to setup configuration components: '' e))
               | None \<Rightarrow> ret None) (retired svc w)))"
  by (cases "rl_close_res r"; cases "service (col w)"; cases "rl_shutdown_res r")
     (simp_all add: reloadService_def reload_started_def retired_def steps)

lemma reload_world_simps:
  "col (reload_started w) = col w"
  "logger (col (retired svc w)) = logger (col w)"
  "parserProvider (col (retired svc w)) = parserProvider (col w)"
  "service (col (retired svc w)) = None"
  "trace (reload_started w) =
     trace w @ [ReloadService] @ (if implementsCloseable (col w) then [ProviderClose] else [])"
  "trace (retired svc w) =
     trace w @ [ReloadService] @ (if implementsCloseable (col w) then [ProviderClose] else []) @
       [SetService None, ServiceShutdown svc]"
  by (simp_all add: reload_started_def retired_def)

lemma setupConfigurationComponents_total:
  assumes "logger (col w) \<noteq> None" and "parserProvider (col w) \<noteq> None"
  shows "\<exists>res w' evs. setupConfigurationComponents r w = (Done res, w') \<and>
           trace w' = trace w @ evs \<and> ReloadService \<notin> set evs"
proof (cases "setup_succeeds r")
  case True
  obtain p where p: "parserProvider (col w) = Some p"
    using assms(2) by auto
  obtain cp cfg svc where ok: "get_res r = Inr cp" "load_res r = Inr cfg"
      "validate_res r = None" "newService_res r = Inr svc" "start_res r = None"
    using True
    by (cases "get_res r"; cases "load_res r"; cases "newService_res r")
       (auto simp: setup_succeeds_def)
  show ?thesis
    by (simp add: setupConfigurationComponents_success [OF assms(1) p ok])
next
  case False
  from setupConfigurationComponents_failure [OF assms False]
  obtain e w' evs where "setupConfigurationComponents r w = (Done (Some e), w')"
      "trace w' = trace w @ evs" "\<forall>ev \<in> set evs. is_setup_event ev"
    by blast
  then show ?thesis
    using setup_events_quiet(4) [of evs] by blast
qed

lemma reloadService_total:
  assumes "logger (col w) \<noteq> None" and "parserProvider (col w) \<noteq> None"
  shows "\<exists>res w' evs. reloadService r w = (Done res, w') \<and>
           trace w' = trace w @ ReloadService # evs \<and> ReloadService \<notin> set evs"
proof -
  have after: "\<exists>res w' evs.
      thn (setupConfigurationComponents (rl_setup_res r)) (\<lambda>err.
        case err of
          Some e \<Rightarrow> ret (Some (Wrap ''failed to setup configuration components: '' e))
        | None \<Rightarrow> ret None) w0 = (Done res, w') \<and>
      trace w' = trace w0 @ evs \<and> ReloadService \<notin> set evs"
    if "logger (col w0) \<noteq> None" "parserProvider (col w0) \<noteq> None" for w0 :: "'a world"
  proof -
    from setupConfigurationComponents_total [OF that]
    obtain res w' evs where "setupConfigurationComponents (rl_setup_res r) w0 = (Done res, w')"
        "trace w' = trace w0 @ evs" "ReloadService \<notin> set evs"
      by blast
    then show ?thesis
      by (cases res) (simp_all add: thn_def ret_def)
  qed
  show ?thesis
  proof (cases "implementsCloseable (col w) \<and> rl_close_res r \<noteq> None")
    case True
    then show ?thesis
      by (simp add: reloadService_unfold reload_world_simps)
  next
    case noclose: False
    show ?thesis
    proof (cases "service (col w)")
      case None
      from after [of "reload_started w"] assms
      obtain res w' evs where
        "thn (setupConfigurationComponents (rl_setup_res r)) (\<lambda>err.
          case err of
            Some e \<Rightarrow> ret (Some (Wrap ''failed to setup configuration components: '' e))
          | None \<Rightarrow> ret None) (reload_started w) = (Done res, w')"
        "trace w' = trace (reload_started w) @ evs" "ReloadService \<notin> set evs"
        by (auto simp: reload_world_simps)
      then show ?thesis
        using noclose None by (simp add: reloadService_unfold reload_world_simps)
    next
      case (Some svc)
      show ?thesis
      proof (cases "rl_shutdown_res r")
        case failed: (Some err)
        then show ?thesis
          using noclose Some by (simp add: reloadService_unfold reload_world_simps)
      next
        case None
        from after [of "retired svc w"] assms
        obtain res w' evs where
          "thn (setupConfigurationComponents (rl_setup_res r)) (\<lambda>err.
            case err of
              Some e \<Rightarrow> ret (Some (Wrap ''failed to setup configuration components: '' e))
            | None \<Rightarrow> ret None) (retired svc w) = (Done res, w')"
          "trace w' = trace (retired svc w) @ evs" "ReloadService \<notin> set evs"
          by (auto simp: reload_world_simps)
        then show ?thesis
          using noclose Some None by (simp add: reloadService_unfold reload_world_simps)
      qed
    qed
  qed
qed

subsection \<open>The state stream of a run\<close>

text \<open>
  C1, as amended. In every run of \<^verbatim>\<open>execute\<close> that starts with the state channel open and
  with room for four values (the first run of a Collector built by \<^verbatim>\<open>New\<close>), with a logger
  and a provider, in which the ballast is allocated, the setup succeeds (telemetry init,
  configuration load and validation, service start) and a shutdown trigger fires, the
  actions on the state channel are exactly: send \<^verbatim>\<open>Starting\<close>, send \<^verbatim>\<open>Running\<close>, send
  \<^verbatim>\<open>Closing\<close>, send \<^verbatim>\<open>Closed\<close>, close the channel, each once and in this order; closing the
  channel is the action right after sending \<^verbatim>\<open>Closed\<close>, and the last one of the run.
\<close>

theorem execute_state_sequence:
  assumes "logger (col w) \<noteq> None" and "parserProvider (col w) \<noteq> None" and "can_publish 4 w"
    and "ballast_fits r" and "telemetry_init_res r = None"
    and "setup_succeeds (setup_res r)" and "trigger_res r = Some t"
  shows "\<exists>res w' evs pre. execute r w = (Done res, w') \<and> trace w' = trace w @ evs \<and>
      state_events evs =
        [Send Starting, Send Running, Send Closing, Send Closed, CloseStateChannel] \<and>
      evs = pre @ [Send Closed, CloseStateChannel] \<and>
      ch_buf (stateChannel (col w')) =
        ch_buf (stateChannel (col w)) @ [Starting, Running, Closing, Closed] \<and>
      ch_closed (stateChannel (col w'))"
proof -
  obtain p where p: "parserProvider (col w) = Some p"
    using assms(2) by auto
  obtain cp cfg svc where ok: "get_res (setup_res r) = Inr cp" "load_res (setup_res r) = Inr cfg"
      "validate_res (setup_res r) = None" "newService_res (setup_res r) = Inr svc"
      "start_res (setup_res r) = None"
    using assms(6)
    by (cases "get_res (setup_res r)"; cases "load_res (setup_res r)";
        cases "newService_res (setup_res r)") (auto simp: setup_succeeds_def)
  define w1 where "w1 = telemetry_started r w"
  obtain evs1 where t1: "trace w1 = trace w @ evs1" "state_events evs1 = [Send Starting]"
    using telemetry_started_trace [of r w] by (auto simp: w1_def)
  have w1: "logger (col w1) \<noteq> None" "parserProvider (col w1) = Some p"
      "can_publish 3 w1"
      "ch_buf (stateChannel (col w1)) = ch_buf (stateChannel (col w)) @ [Starting]"
    using assms(1,3) p by (simp_all add: w1_def telemetry_started_simps can_publish_def)
  obtain w2 evs2 where s2: "setupConfigurationComponents (setup_res r) w1 = (Done None, w2)"
      and w2: "logger (col w2) \<noteq> None" "can_publish 3 w2" "trace w2 = trace w1 @ evs2"
        "state_events evs2 = []" "ch_buf (stateChannel (col w2)) = ch_buf (stateChannel (col w1))"
    using w1 by (simp add: setupConfigurationComponents_success [OF w1(1,2) ok]
        can_publish_def state_events_def)
  obtain w3 evs3 where s3: "runAndWaitForShutdownEvent (trigger_res r) w2 = (Done (), w3)"
      and w3: "logger (col w3) \<noteq> None" "can_publish 1 w3" "trace w3 = trace w2 @ evs3"
        "state_events evs3 = [Send Running, Send Closing]"
        "ch_buf (stateChannel (col w3)) = ch_buf (stateChannel (col w2)) @ [Running, Closing]"
    using w2 assms(7)
    by (cases t) (simp_all add: runAndWaitForShutdownEvent_effect can_publish_def state_events_def)
  obtain res w4 pre4 where
      s4: "execute_shutdown (close_res r) (shutdown_res r) (telemetry_shutdown_res r) w3 =
             (Done res, w4)"
      and w4: "trace w4 = trace w3 @ pre4 @ [Send Closed, CloseStateChannel]"
        "state_events pre4 = []"
        "ch_buf (stateChannel (col w4)) = ch_buf (stateChannel (col w3)) @ [Closed]"
        "ch_closed (stateChannel (col w4))"
    using w3
    by (cases "service (col w3)")
       (simp_all add: execute_shutdown_effect [OF w3(1,2)] state_events_def)
  have run: "execute r w = (Done res, w4)"
    using assms(1,3,4,5) s2 s3 s4
    by (simp add: execute_unfold can_publish_def w1_def [symmetric] thn_def)
  define pre where "pre = evs1 @ evs2 @ evs3 @ pre4"
  have tr: "trace w4 = trace w @ pre @ [Send Closed, CloseStateChannel]"
    using t1 w2 w3 w4 by (simp add: pre_def)
  have se: "state_events (pre @ [Send Closed, CloseStateChannel]) =
      [Send Starting, Send Running, Send Closing, Send Closed, CloseStateChannel]"
    using t1 w2 w3 w4 by (simp add: state_events_def pre_def)
  have buf: "ch_buf (stateChannel (col w4)) =
      ch_buf (stateChannel (col w)) @ [Starting, Running, Closing, Closed]"
    using w1 w2 w3 w4 by simp
  show ?thesis
    apply (rule exI [of _ res])
    apply (rule exI [of _ w4])
    apply (rule exI [of _ "pre @ [Send Closed, CloseStateChannel]"])
    apply (rule exI [of _ pre])
    using run tr se buf w4(4) apply simp
    done
qed

theorem execute_state_sequence_witness:
  "logger (col example_world) \<noteq> None \<and> parserProvider (col example_world) \<noteq> None \<and>
   can_publish 4 example_world \<and> ballast_fits example_run \<and>
   telemetry_init_res example_run = None \<and> setup_succeeds (setup_res example_run) \<and>
   trigger_res example_run = Some (OSSignal ''terminated'') \<and>
   (\<exists>res w' evs pre. execute example_run example_world = (Done res, w') \<and>
      trace w' = trace example_world @ evs \<and>
      state_events evs =
        [Send Starting, Send Running, Send Closing, Send Closed, CloseStateChannel] \<and>
      evs = pre @ [Send Closed, CloseStateChannel] \<and>
      ch_buf (stateChannel (col w')) =
        ch_buf (stateChannel (col example_world)) @ [Starting, Running, Closing, Closed] \<and>
      ch_closed (stateChannel (col w')))"
proof -
  have h1: "logger (col example_world) \<noteq> None"
    and h2: "parserProvider (col example_world) \<noteq> None"
    and h3: "can_publish 4 example_world"
    by (simp_all add: example_world_def example_collector_def can_publish_def make_chan_def)
  have h4: "ballast_fits example_run"
    and h5: "telemetry_init_res example_run = None"
    and h6: "setup_succeeds (setup_res example_run)"
    and h7: "trigger_res example_run = Some (OSSignal ''terminated'')"
    by (simp_all add: example_run_def example_setup_def ballast_fits_def setup_succeeds_def
        word_sless_alt)
  show ?thesis
    by (intro conjI h1 h2 h3 h4 h5 h6 h7 execute_state_sequence [OF h1 h2 h3 h4 h5 h6 h7])
qed

text \<open>
  C1 as stated fails on a second run of the same Collector. A first run whose
  configuration does not validate leaves \<^verbatim>\<open>Starting\<close> in the open state channel. In the
  second run the setup succeeds and the trigger fires, and \<^verbatim>\<open>Starting\<close>, \<^verbatim>\<open>Running\<close> and
  \<^verbatim>\<open>Closing\<close> fill the channel of capacity 4: the send of \<^verbatim>\<open>Closed\<close> waits for a receiver,
  \<^verbatim>\<open>Closed\<close> is not sent and the channel is not closed.
\<close>

theorem execute_second_run_blocks:
  "telemetry_init_res example_run = None \<and> setup_succeeds (setup_res example_run) \<and>
   trigger_res example_run = Some (OSSignal ''terminated'') \<and>
   fst (execute example_failing_run example_world) =
     Done (Some (Wrap ''invalid configuration: '' (Err ''no pipelines''))) \<and>
   fst (execute example_run (snd (execute example_failing_run example_world))) =
     BlockedForever \<and>
   state_events
     (drop (length (trace (snd (execute example_failing_run example_world))))
        (trace (snd (execute example_run (snd (execute example_failing_run example_world)))))) =
     [Send Starting, Send Running, Send Closing]"
  by code_simp

text \<open>
  C3. In every run of \<^verbatim>\<open>execute\<close> in which the setup fails before \<^verbatim>\<open>Running\<close> is published (the
  telemetry init fails, or a step of the configuration setup fails), \<^verbatim>\<open>execute\<close> returns the
  error that \<^verbatim>\<open>setupTelemetry\<close> or \<^verbatim>\<open>setupConfigurationComponents\<close> returned, in the world
  that method left; the only action on the state channel is sending \<^verbatim>\<open>Starting\<close>, and the
  channel is not closed.
\<close>

theorem execute_setup_failure:
  assumes "logger (col w) \<noteq> None" and "parserProvider (col w) \<noteq> None" and "can_publish 1 w"
    and "ballast_fits r"
    and "telemetry_init_res r \<noteq> None \<or> \<not> setup_succeeds (setup_res r)"
  shows "\<exists>e w' evs. execute r w = (Done (Some e), w') \<and>
      ((\<exists>sz w1. setupTelemetry sz (telemetry_init_res r) w1 = (Done (Some e), w')) \<or>
       (\<exists>w1. setupConfigurationComponents (setup_res r) w1 = (Done (Some e), w'))) \<and>
      trace w' = trace w @ evs \<and> state_events evs = [Send Starting] \<and>
      ch_buf (stateChannel (col w')) = ch_buf (stateChannel (col w)) @ [Starting] \<and>
      \<not> ch_closed (stateChannel (col w'))"
proof (cases "telemetry_init_res r")
  case (Some err)
  have run: "execute r w =
      (Done (Some (Wrap ''failed to initialize telemetry: '' err)), telemetry_started r w)"
    using assms(1,3,4) Some by (simp add: execute_unfold)
  obtain evs where evs: "trace (telemetry_started r w) = trace w @ evs"
      "state_events evs = [Send Starting]"
    using telemetry_started_trace [of r w] by blast
  have open': "\<not> ch_closed (stateChannel (col (telemetry_started r w)))"
    using assms(3) by (simp add: telemetry_started_simps can_publish_def)
  show ?thesis
    apply (rule exI [of _ "Wrap ''failed to initialize telemetry: '' err"])
    apply (rule exI [of _ "telemetry_started r w"])
    apply (rule exI [of _ evs])
    using run evs open' telemetry_failure_is_returned [OF assms(1) Some]
    apply (simp add: telemetry_started_simps)
    done
next
  case None
  with assms(5) have fails: "\<not> setup_succeeds (setup_res r)" by simp
  define w1 where "w1 = telemetry_started r w"
  obtain evs1 where evs1: "trace w1 = trace w @ evs1" "state_events evs1 = [Send Starting]"
    using telemetry_started_trace [of r w] unfolding w1_def by blast
  have w1: "logger (col w1) \<noteq> None" "parserProvider (col w1) \<noteq> None"
    using assms(1,2) by (simp_all add: w1_def telemetry_started_simps)
  obtain e w2 evs2 where s2: "setupConfigurationComponents (setup_res r) w1 = (Done (Some e), w2)"
      and w2: "col w2 = col w1" "trace w2 = trace w1 @ evs2" "\<forall>ev \<in> set evs2. is_setup_event ev"
    using setupConfigurationComponents_failure [OF w1 fails] by blast
  have quiet: "state_events evs2 = []"
    using w2(3) by (rule setup_events_quiet)
  have run: "execute r w = (Done (Some e), w2)"
    using assms(1,3,4) None s2 by (simp add: execute_unfold w1_def [symmetric] thn_def ret_def)
  have tr: "trace w2 = trace w @ evs1 @ evs2"
    using evs1 w2 by simp
  have se: "state_events (evs1 @ evs2) = [Send Starting]"
    using evs1 quiet by (simp add: state_events_def)
  have ch: "ch_buf (stateChannel (col w2)) = ch_buf (stateChannel (col w)) @ [Starting]"
      "\<not> ch_closed (stateChannel (col w2))"
    using assms(3) w2(1) by (simp_all add: w1_def telemetry_started_simps can_publish_def)
  show ?thesis
    apply (rule exI [of _ e])
    apply (rule exI [of _ w2])
    apply (rule exI [of _ "evs1 @ evs2"])
    using run s2 tr se ch apply blast
    done
qed

theorem execute_setup_failure_witness:
  "logger (col example_world) \<noteq> None \<and> parserProvider (col example_world) \<noteq> None \<and>
   can_publish 1 example_world \<and> ballast_fits example_failing_run \<and>
   \<not> setup_succeeds (setup_res example_failing_run) \<and>
   (\<exists>e w' evs. execute example_failing_run example_world = (Done (Some e), w') \<and>
      ((\<exists>sz w1. setupTelemetry sz (telemetry_init_res example_failing_run) w1 =
                  (Done (Some e), w')) \<or>
       (\<exists>w1. setupConfigurationComponents (setup_res example_failing_run) w1 =
                  (Done (Some e), w'))) \<and>
      trace w' = trace example_world @ evs \<and> state_events evs = [Send Starting] \<and>
      ch_buf (stateChannel (col w')) = ch_buf (stateChannel (col example_world)) @ [Starting] \<and>
      \<not> ch_closed (stateChannel (col w')))"
proof -
  have h1: "logger (col example_world) \<noteq> None"
    and h2: "parserProvider (col example_world) \<noteq> None"
    and h3: "can_publish 1 example_world"
    by (simp_all add: example_world_def example_collector_def can_publish_def make_chan_def)
  have h4: "ballast_fits example_failing_run"
    and h5: "\<not> setup_succeeds (setup_res example_failing_run)"
    by (simp_all add: example_failing_run_def example_invalid_setup_def example_run_def
        example_setup_def ballast_fits_def setup_succeeds_def word_sless_alt)
  show ?thesis
    by (intro conjI h1 h2 h3 h4 h5 execute_setup_failure [OF h1 h2 h3 h4 disjI2 [OF h5]])
qed

text \<open>
  C8. In every run of \<^verbatim>\<open>execute\<close> in which the telemetry init succeeds and the configuration
  setup then fails, \<^verbatim>\<open>execute\<close> returns the error with no teardown: the telemetry, which
  was initialised, is not shut down, \<^verbatim>\<open>runtime.KeepAlive\<close> is not reached, the provider is
  not closed, no service is shut down, and \<^verbatim>\<open>col.service\<close> is never assigned, so it is what
  it was (nil, on a new Collector).
\<close>

theorem setup_failure_skips_teardown:
  assumes "logger (col w) \<noteq> None" and "parserProvider (col w) \<noteq> None" and "can_publish 1 w"
    and "ballast_fits r" and "telemetry_init_res r = None"
    and "\<not> setup_succeeds (setup_res r)"
  shows "\<exists>e w' evs. execute r w = (Done (Some e), w') \<and> trace w' = trace w @ evs \<and>
      TelemetryInit (ballast_bytes (memBallastSize r)) \<in> set evs \<and>
      TelemetryShutdown \<notin> set evs \<and> KeepAlive \<notin> set evs \<and> ProviderClose \<notin> set evs \<and>
      (\<forall>svc. ServiceShutdown svc \<notin> set evs) \<and> (\<forall>s. SetService s \<notin> set evs) \<and>
      service (col w') = service (col w)"
proof -
  define w1 where "w1 = telemetry_started r w"
  obtain evs1 where evs1: "trace w1 = trace w @ evs1" "filter is_teardown_event evs1 = []"
      "\<forall>s. SetService s \<notin> set evs1" "TelemetryInit (ballast_bytes (memBallastSize r)) \<in> set evs1"
    using telemetry_started_trace [of r w] unfolding w1_def by blast
  have w1: "logger (col w1) \<noteq> None" "parserProvider (col w1) \<noteq> None"
    using assms(1,2) by (simp_all add: w1_def telemetry_started_simps)
  obtain e w2 evs2 where s2: "setupConfigurationComponents (setup_res r) w1 = (Done (Some e), w2)"
      and w2: "col w2 = col w1" "trace w2 = trace w1 @ evs2" "\<forall>ev \<in> set evs2. is_setup_event ev"
    using setupConfigurationComponents_failure [OF w1 assms(6)] by blast
  have quiet: "filter is_teardown_event evs2 = []" "\<forall>s. SetService s \<notin> set evs2"
    using setup_events_quiet [OF w2(3)] by simp_all
  have run: "execute r w = (Done (Some e), w2)"
    using assms(1,3,4,5) s2 by (simp add: execute_unfold w1_def [symmetric] thn_def ret_def)
  have tr: "trace w2 = trace w @ evs1 @ evs2"
    using evs1 w2 by simp
  have no: "filter is_teardown_event (evs1 @ evs2) = []"
    using evs1 quiet by simp
  then have no': "\<forall>ev \<in> set (evs1 @ evs2). \<not> is_teardown_event ev"
    by (simp only: filter_empty_conv)
  have t1: "TelemetryShutdown \<notin> set (evs1 @ evs2)" using no' is_teardown_event.simps(4) by blast
  have t2: "KeepAlive \<notin> set (evs1 @ evs2)" using no' is_teardown_event.simps(1) by blast
  have t3: "ProviderClose \<notin> set (evs1 @ evs2)" using no' is_teardown_event.simps(2) by blast
  have t4: "\<forall>svc. ServiceShutdown svc \<notin> set (evs1 @ evs2)"
    using no' is_teardown_event.simps(3) by blast
  have t5: "\<forall>s. SetService s \<notin> set (evs1 @ evs2)"
    using evs1(3) quiet(2) by simp
  have t6: "TelemetryInit (ballast_bytes (memBallastSize r)) \<in> set (evs1 @ evs2)"
    using evs1(4) by simp
  have sv: "service (col w2) = service (col w)"
    using w2(1) by (simp add: w1_def telemetry_started_simps)
  show ?thesis
    apply (rule exI [of _ e])
    apply (rule exI [of _ w2])
    apply (rule exI [of _ "evs1 @ evs2"])
    apply (intro conjI run tr t1 t2 t3 t4 t5 t6 sv)
    done
qed

theorem setup_failure_skips_teardown_witness:
  "logger (col example_world) \<noteq> None \<and> parserProvider (col example_world) \<noteq> None \<and>
   can_publish 1 example_world \<and> ballast_fits example_failing_run \<and>
   telemetry_init_res example_failing_run = None \<and>
   \<not> setup_succeeds (setup_res example_failing_run) \<and>
   service (col example_world) = None \<and>
   (\<exists>e w' evs. execute example_failing_run example_world = (Done (Some e), w') \<and>
      trace w' = trace example_world @ evs \<and>
      TelemetryInit (ballast_bytes (memBallastSize example_failing_run)) \<in> set evs \<and>
      TelemetryShutdown \<notin> set evs \<and> KeepAlive \<notin> set evs \<and> ProviderClose \<notin> set evs \<and>
      (\<forall>svc. ServiceShutdown svc \<notin> set evs) \<and> (\<forall>s. SetService s \<notin> set evs) \<and>
      service (col w') = service (col example_world))"
proof -
  have h1: "logger (col example_world) \<noteq> None"
    and h2: "parserProvider (col example_world) \<noteq> None"
    and h3: "can_publish 1 example_world"
    and h7: "service (col example_world) = None"
    by (simp_all add: example_world_def example_collector_def can_publish_def make_chan_def)
  have h4: "ballast_fits example_failing_run"
    and h5: "telemetry_init_res example_failing_run = None"
    and h6: "\<not> setup_succeeds (setup_res example_failing_run)"
    by (simp_all add: example_failing_run_def example_invalid_setup_def example_run_def
        example_setup_def ballast_fits_def setup_succeeds_def word_sless_alt)
  show ?thesis
    by (intro conjI h1 h2 h3 h4 h5 h6 h7
        setup_failure_skips_teardown [OF h1 h2 h3 h4 h5 h6])
qed

subsection \<open>The shutdown sequence\<close>



subsection \<open>Reload\<close>

text \<open>
  C4. In \<^verbatim>\<open>reloadService\<close> on a Collector with a logger and a provider, when the retire step
  is reached with a current service: \<^verbatim>\<open>col.service\<close> is set to nil and only then the
  retiring service's \<^verbatim>\<open>Shutdown\<close> is called. If that \<^verbatim>\<open>Shutdown\<close> fails, \<^verbatim>\<open>reloadService\<close>
  returns an error, nothing more is done and \<^verbatim>\<open>col.service\<close> stays nil. A new service is
  recorded only when the \<^verbatim>\<open>Shutdown\<close> has succeeded and the \<^verbatim>\<open>Start\<close> of the new service has
  succeeded, and it is recorded after both; in every other case \<^verbatim>\<open>col.service\<close> is left nil.
\<close>

theorem reloadService_retires_first:
  assumes "logger (col w) \<noteq> None" and "parserProvider (col w) \<noteq> None"
    and "implementsCloseable (col w) \<longrightarrow> rl_close_res r = None"
    and "service (col w) = Some old"
  shows "\<exists>res w' rest. reloadService r w = (Done res, w') \<and>
      trace w' = trace w @ [ReloadService] @
         (if implementsCloseable (col w) then [ProviderClose] else []) @
         [SetService None, ServiceShutdown old] @ rest \<and>
      (\<forall>err. rl_shutdown_res r = Some err \<longrightarrow>
         res = Some (Wrap ''failed to shutdown the retiring config: '' err) \<and>
         service (col w') = None \<and> rest = []) \<and>
      (\<forall>new. service (col w') = Some new \<longrightarrow>
         rl_shutdown_res r = None \<and> newService_res (rl_setup_res r) = Inr new \<and>
         start_res (rl_setup_res r) = None \<and> res = None \<and>
         (\<exists>mid spawn. rest = mid @ [ServiceStart new, SetService (Some new)] @ spawn \<and>
            (\<forall>s. SetService s \<notin> set mid) \<and> (\<forall>s. SetService s \<notin> set spawn))) \<and>
      (service (col w') = None \<longrightarrow> (\<forall>s. SetService s \<notin> set rest))"
proof -
  let ?w0 = "retired old w"
  have w0: "logger (col ?w0) \<noteq> None" "parserProvider (col ?w0) \<noteq> None"
    using assms(1,2) by (simp_all add: reload_world_simps)
  show ?thesis
  proof (cases "rl_shutdown_res r")
    case (Some err)
    have "reloadService r w =
        (Done (Some (Wrap ''failed to shutdown the retiring config: '' err)), ?w0)"
      using assms(3,4) Some by (cases "rl_close_res r") (simp_all add: reloadService_unfold)
    then show ?thesis
      apply (intro exI [of _ "Some (Wrap ''failed to shutdown the retiring config: '' err)"]
          exI [of _ ?w0] exI [of _ "[]"])
      using Some apply (simp add: reload_world_simps)
      done
  next
    case None
    have unfold: "reloadService r w =
        thn (setupConfigurationComponents (rl_setup_res r)) (\<lambda>err.
          case err of
            Some e \<Rightarrow> ret (Some (Wrap ''failed to setup configuration components: '' e))
          | None \<Rightarrow> ret None) ?w0"
      using assms(3,4) None by (cases "rl_close_res r") (simp_all add: reloadService_unfold)
    show ?thesis
    proof (cases "setup_succeeds (rl_setup_res r)")
      case True
      obtain p where p: "parserProvider (col ?w0) = Some p"
        using w0(2) by auto
      obtain cp cfg svc where ok: "get_res (rl_setup_res r) = Inr cp"
          "load_res (rl_setup_res r) = Inr cfg" "validate_res (rl_setup_res r) = None"
          "newService_res (rl_setup_res r) = Inr svc" "start_res (rl_setup_res r) = None"
        using True
        by (cases "get_res (rl_setup_res r)"; cases "load_res (rl_setup_res r)";
            cases "newService_res (rl_setup_res r)") (auto simp: setup_succeeds_def)
      let ?mid = "[Log InfoLevel ''Loading configuration...'', ProviderGet, ConfigLoad cp,
           ConfigValidate cfg, Log InfoLevel ''Applying configuration...'', NewService cfg]"
      let ?spawn = "if isWatchable p then [SpawnWatch] else []"
      let ?w' = "?w0\<lparr>col := (col ?w0)\<lparr>service := Some svc\<rparr>,
        trace := trace ?w0 @
          [Log InfoLevel ''Loading configuration...'', ProviderGet, ConfigLoad cp,
           ConfigValidate cfg, Log InfoLevel ''Applying configuration...'', NewService cfg,
           ServiceStart svc, SetService (Some svc)] @
          (if isWatchable p then [SpawnWatch] else [])\<rparr>"
      have run: "reloadService r w = (Done None, ?w')"
        by (simp add: unfold thn_def ret_def
            setupConfigurationComponents_success [OF w0(1) p ok])
      have shape: "\<exists>mid spawn. ?mid @ [ServiceStart svc, SetService (Some svc)] @ ?spawn =
            mid @ [ServiceStart svc, SetService (Some svc)] @ spawn \<and>
            (\<forall>s. SetService s \<notin> set mid) \<and> (\<forall>s. SetService s \<notin> set spawn)"
        by (intro exI [of _ ?mid] exI [of _ ?spawn]) simp
      show ?thesis
        apply (intro exI [of _ None] exI [of _ ?w']
            exI [of _ "?mid @ [ServiceStart svc, SetService (Some svc)] @ ?spawn"])
        apply (intro conjI)
            apply (rule run)
           apply (simp add: reload_world_simps)
          apply (simp add: None)
         using shape ok None apply simp
        apply simp
        done
    next
      case False
      from setupConfigurationComponents_failure [OF w0 False]
      obtain e w2 evs where s: "setupConfigurationComponents (rl_setup_res r) ?w0 =
            (Done (Some e), w2)"
          and w2: "col w2 = col ?w0" "trace w2 = trace ?w0 @ evs"
            "\<forall>ev \<in> set evs. is_setup_event ev"
        by blast
      have run: "reloadService r w =
          (Done (Some (Wrap ''failed to setup configuration components: '' e)), w2)"
        by (simp add: unfold thn_def ret_def s)
      have quiet: "\<forall>s. SetService s \<notin> set evs"
        using setup_events_quiet(3) [OF w2(3)] by simp
      have nil: "service (col w2) = None"
        using w2(1) by (simp add: reload_world_simps)
      show ?thesis
        apply (intro exI [of _ "Some (Wrap ''failed to setup configuration components: '' e)"]
            exI [of _ w2] exI [of _ evs])
        using run w2(2) quiet nil None apply (simp add: reload_world_simps)
        done
    qed
  qed
qed

theorem reloadService_retires_first_witness:
  "logger (col example_running) \<noteq> None \<and> parserProvider (col example_running) \<noteq> None \<and>
   rl_close_res example_reload = None \<and> service (col example_running) = Some (Service 1) \<and>
   rl_shutdown_res (example_reload\<lparr>rl_shutdown_res := Some (Err ''stuck'')\<rparr>) =
     Some (Err ''stuck'') \<and>
   (\<exists>res w' rest. reloadService example_reload example_running = (Done res, w') \<and>
      trace w' = trace example_running @
        [ReloadService, ProviderClose, SetService None, ServiceShutdown (Service 1)] @ rest) \<and>
   (\<exists>w' rest. reloadService (example_reload\<lparr>rl_shutdown_res := Some (Err ''stuck'')\<rparr>)
        example_running =
        (Done (Some (Wrap ''failed to shutdown the retiring config: '' (Err ''stuck''))), w') \<and>
      service (col w') = None)"
proof -
  have h1: "logger (col example_running) \<noteq> None"
    and h2: "parserProvider (col example_running) \<noteq> None"
    and h4: "service (col example_running) = Some (Service 1)"
    and cl: "implementsCloseable (col example_running)"
    by (simp_all add: example_running_def example_collector_def example_provider_def
        implementsCloseable_def)
  have h3: "rl_close_res example_reload = None"
    by (simp add: example_reload_def)
  have h3': "rl_close_res (example_reload\<lparr>rl_shutdown_res := Some (Err ''stuck'')\<rparr>) = None"
    by (simp add: example_reload_def)
  have h5: "rl_shutdown_res (example_reload\<lparr>rl_shutdown_res := Some (Err ''stuck'')\<rparr>) =
      Some (Err ''stuck'')"
    by simp
  have a: "\<exists>res w' rest. reloadService example_reload example_running = (Done res, w') \<and>
      trace w' = trace example_running @
        [ReloadService, ProviderClose, SetService None, ServiceShutdown (Service 1)] @ rest"
    using reloadService_retires_first [OF h1 h2 impI [OF h3] h4] cl by simp blast
  have b: "\<exists>w' rest. reloadService (example_reload\<lparr>rl_shutdown_res := Some (Err ''stuck'')\<rparr>)
        example_running =
        (Done (Some (Wrap ''failed to shutdown the retiring config: '' (Err ''stuck''))), w') \<and>
      service (col w') = None"
    using reloadService_retires_first [OF h1 h2 impI [OF h3'] h4] h5 by simp blast
  show ?thesis
    by (intro conjI h1 h2 h3 h4 h5 a b)
qed

text \<open>
  C5. In \<^verbatim>\<open>reloadService\<close>, if the provider is Closeable and its \<^verbatim>\<open>Close\<close> fails,
  \<^verbatim>\<open>reloadService\<close> returns an error at once: the Collector, and with it the current
  service, is unchanged, and the only actions are the call itself and the \<^verbatim>\<open>Close\<close>; no
  service is shut down and no setup step runs.
\<close>

theorem reloadService_close_failure:
  assumes "implementsCloseable (col w)" and "rl_close_res r = Some err"
  shows "\<exists>w'. reloadService r w =
           (Done (Some (Wrap ''failed close current config provider: '' err)), w') \<and>
         col w' = col w \<and> service (col w') = service (col w) \<and>
         trace w' = trace w @ [ReloadService, ProviderClose]"
  using assms by (simp add: reloadService_unfold reload_world_simps)

theorem reloadService_close_failure_witness:
  "implementsCloseable (col example_running) \<and>
   rl_close_res (example_reload\<lparr>rl_close_res := Some (Err ''busy'')\<rparr>) = Some (Err ''busy'') \<and>
   (\<exists>w'. reloadService (example_reload\<lparr>rl_close_res := Some (Err ''busy'')\<rparr>) example_running =
           (Done (Some (Wrap ''failed close current config provider: '' (Err ''busy''))), w') \<and>
         col w' = col example_running \<and> service (col w') = service (col example_running) \<and>
         trace w' = trace example_running @ [ReloadService, ProviderClose])"
proof -
  have h1: "implementsCloseable (col example_running)"
    by (simp add: example_running_def example_collector_def example_provider_def
        implementsCloseable_def)
  have h2: "rl_close_res (example_reload\<lparr>rl_close_res := Some (Err ''busy'')\<rparr>) =
      Some (Err ''busy'')"
    by simp
  show ?thesis
    by (intro conjI h1 h2 reloadService_close_failure [OF h1 h2])
qed

text \<open>
  C6. The watch task of a Watchable provider dispatches on the result of
  \<^verbatim>\<open>WatchForUpdate\<close>. If the result is, or wraps, the session-closed sentinel, the task logs
  and exits, without a reload. For every other result, nil and any other error included,
  it calls \<^verbatim>\<open>reloadService\<close> exactly once.
\<close>

theorem watchTask_dispatch:
  assumes "logger (col w) \<noteq> None" and "implementsWatchable (col w)"
  shows "(errors_Is watch_res ErrSessionClosed \<longrightarrow>
            watchTask watch_res r w =
              (Done (), w\<lparr>trace := trace w @
                 [WatchForUpdate, Log InfoLevel ''Config WatchForUpdate closed'']\<rparr>)) \<and>
         (\<not> errors_Is watch_res ErrSessionClosed \<longrightarrow>
            (\<exists>w' evs. watchTask watch_res r w = (Done (), w') \<and> trace w' = trace w @ evs \<and>
               count_list evs ReloadService = 1)) \<and>
         errors_Is (Some ErrSessionClosed) ErrSessionClosed \<and>
         errors_Is (Some (Wrap msg ErrSessionClosed)) ErrSessionClosed \<and>
         \<not> errors_Is None ErrSessionClosed \<and>
         \<not> errors_Is (Some (Err msg)) ErrSessionClosed"
proof (intro conjI impI)
  assume "errors_Is watch_res ErrSessionClosed"
  then show "watchTask watch_res r w =
      (Done (), w\<lparr>trace := trace w @
         [WatchForUpdate, Log InfoLevel ''Config WatchForUpdate closed'']\<rparr>)"
    using assms(1) by (simp add: watchTask_def steps)
next
  assume other: "\<not> errors_Is watch_res ErrSessionClosed"
  define w1 where "w1 = w\<lparr>trace := trace w @
      [WatchForUpdate, Log WarnLevel ''Config WatchForUpdated exited'']\<rparr>"
  have w1: "logger (col w1) \<noteq> None" "parserProvider (col w1) \<noteq> None"
    using assms by (auto simp: w1_def implementsWatchable_def split: option.splits)
  have task: "watchTask watch_res r w = thn (reloadService r) (\<lambda>_. ret ()) w1"
    using other assms(1) by (simp add: watchTask_def steps w1_def)
  from reloadService_total [OF w1]
  obtain res w' evs where rl: "reloadService r w1 = (Done res, w')"
      "trace w' = trace w1 @ ReloadService # evs" "ReloadService \<notin> set evs"
    by blast
  have "watchTask watch_res r w = (Done (), w')"
    using task rl(1) by (simp add: thn_def ret_def)
  moreover have "trace w' = trace w @
      [WatchForUpdate, Log WarnLevel ''Config WatchForUpdated exited''] @ ReloadService # evs"
    using rl(2) by (simp add: w1_def)
  moreover have "count_list
      ([WatchForUpdate, Log WarnLevel ''Config WatchForUpdated exited''] @ ReloadService # evs)
      ReloadService = 1"
    using rl(3) by (simp add: count_list_0_iff)
  ultimately show "\<exists>w' evs. watchTask watch_res r w = (Done (), w') \<and> trace w' = trace w @ evs \<and>
               count_list evs ReloadService = 1"
    by blast
qed simp_all

theorem watchTask_dispatch_witness:
  "logger (col example_running) \<noteq> None \<and> implementsWatchable (col example_running) \<and>
   errors_Is (Some (Wrap ''watch: '' ErrSessionClosed)) ErrSessionClosed \<and>
   watchTask (Some (Wrap ''watch: '' ErrSessionClosed)) example_reload example_running =
     (Done (), example_running\<lparr>trace := trace example_running @
        [WatchForUpdate, Log InfoLevel ''Config WatchForUpdate closed'']\<rparr>) \<and>
   \<not> errors_Is None ErrSessionClosed \<and>
   (\<exists>w' evs. watchTask None example_reload example_running = (Done (), w') \<and>
      trace w' = trace example_running @ evs \<and> count_list evs ReloadService = 1)"
proof -
  have h1: "logger (col example_running) \<noteq> None"
    and h2: "implementsWatchable (col example_running)"
    by (simp_all add: example_running_def example_collector_def example_provider_def
        implementsWatchable_def)
  have h3: "errors_Is (Some (Wrap ''watch: '' ErrSessionClosed)) ErrSessionClosed"
    and h4: "\<not> errors_Is None ErrSessionClosed"
    by simp_all
  have a: "watchTask (Some (Wrap ''watch: '' ErrSessionClosed)) example_reload example_running =
     (Done (), example_running\<lparr>trace := trace example_running @
        [WatchForUpdate, Log InfoLevel ''Config WatchForUpdate closed'']\<rparr>)"
    using watchTask_dispatch [OF h1 h2, of "Some (Wrap ''watch: '' ErrSessionClosed)"] h3
    by blast
  have b: "\<exists>w' evs. watchTask None example_reload example_running = (Done (), w') \<and>
      trace w' = trace example_running @ evs \<and> count_list evs ReloadService = 1"
    using watchTask_dispatch [OF h1 h2, of None] h4 by blast
  show ?thesis
    by (intro conjI h1 h2 h3 h4 a b)
qed

subsection \<open>The stop request\<close>

lemma Shutdown_first:
  assumes "stopTestChan (col w) = Some ch" and "\<not> ch_closed ch"
  shows "Shutdown w = (Done (), w\<lparr>col := (col w)\<lparr>stopTestChan := Some (ch\<lparr>ch_closed := True\<rparr>)\<rparr>\<rparr>)"
  using assms by (simp add: Shutdown_def chan_close_def)

lemma Shutdown_again:
  assumes "logger (col w) \<noteq> None" and "stopTestChan (col w) = Some ch" and "ch_closed ch"
  shows "Shutdown w =
     (Done (), w\<lparr>trace := trace w @ [Log InfoLevel ''stopTestChan already closed'']\<rparr>)"
  using assms by (simp add: Shutdown_def chan_close_def logAt_Done)

lemma Shutdown_without_logger:
  assumes "logger (col w) = None" and "stopTestChan (col w) = None"
  shows "Shutdown w = (Panicked nil_dereference, w)"
  using assms by (simp add: Shutdown_def chan_close_def logAt_def panic_def)

lemma runAndWaitForShutdownEvent_without_logger:
  assumes "logger (col w) = None"
  shows "runAndWaitForShutdownEvent trig w = (Panicked nil_dereference, w)"
  using assms by (simp add: runAndWaitForShutdownEvent_def thn_def logAt_def panic_def)

text \<open>
  On a Collector whose logger is set, \<^verbatim>\<open>Shutdown\<close> may be called again and again: once the
  stop channel has been closed, every further call returns normally, the panic of the
  second \<^verbatim>\<open>close\<close> being recovered, and leaves the Collector as it is; each such call only
  logs.
\<close>

theorem Shutdown_idempotent:
  assumes "logger (col w) \<noteq> None" and "stopTestChan (col w) = Some ch" and "ch_closed ch"
  shows "\<exists>w'. repeated n Shutdown w = (Done (), w') \<and> col w' = col w \<and>
     trace w' = trace w @ replicate n (Log InfoLevel ''stopTestChan already closed'')"
  using assms
proof (induction n arbitrary: w)
  case 0
  then show ?case by (simp add: ret_def)
next
  case (Suc n)
  let ?w1 = "w\<lparr>trace := trace w @ [Log InfoLevel ''stopTestChan already closed'']\<rparr>"
  have first: "Shutdown w = (Done (), ?w1)"
    using Suc.prems by (rule Shutdown_again)
  have "logger (col ?w1) \<noteq> None" "stopTestChan (col ?w1) = Some ch"
    using Suc.prems by simp_all
  from Suc.IH [OF this Suc.prems(3)]
  obtain w' where "repeated n Shutdown ?w1 = (Done (), w')" "col w' = col ?w1"
      "trace w' = trace ?w1 @ replicate n (Log InfoLevel ''stopTestChan already closed'')"
    by blast
  then show ?case
    using first by (simp add: thn_def replicate_app_Cons_same)
qed

theorem Shutdown_idempotent_witness:
  "logger (col example_stopped) \<noteq> None \<and>
   stopTestChan (col example_stopped) = Some \<lparr>ch_buf = [], ch_cap = 0, ch_closed = True\<rparr> \<and>
   (\<exists>w'. repeated 2 Shutdown example_stopped = (Done (), w') \<and> col w' = col example_stopped \<and>
     trace w' = trace example_stopped @
       replicate 2 (Log InfoLevel ''stopTestChan already closed''))"
proof -
  have h1: "logger (col example_stopped) \<noteq> None"
    and h2: "stopTestChan (col example_stopped) =
      Some \<lparr>ch_buf = [], ch_cap = 0, ch_closed = True\<rparr>"
    by (simp_all add: example_stopped_def example_collector_def)
  have h3: "ch_closed \<lparr>ch_buf = [] :: unit list, ch_cap = 0, ch_closed = True\<rparr>"
    by simp
  show ?thesis
    by (intro conjI h1 h2 Shutdown_idempotent [OF h1 h2 h3])
qed

text \<open>
  C9. \<^verbatim>\<open>Shutdown\<close> is meant to be idempotent: after the stop channel has been closed, every
  further call should return normally and leave the Collector unchanged. The deferred
  function recovers the panic of the second \<^verbatim>\<open>close\<close>, but it logs through \<^verbatim>\<open>col.logger\<close>
  without testing it, and \<^verbatim>\<open>RunE\<close> assigns the result of \<^verbatim>\<open>newLogger\<close> to \<^verbatim>\<open>col.logger\<close>
  before it tests the error. So the property fails here: a run ends on an OS signal,
  \<^verbatim>\<open>Shutdown\<close> closes the stop channel, a second \<^verbatim>\<open>Run\<close> fails to get its logger and leaves
  \<^verbatim>\<open>col.logger\<close> nil with the stop channel still closed, and the next \<^verbatim>\<open>Shutdown\<close> panics
  with a nil dereference.
\<close>

theorem Shutdown_panics_without_logger:
  "fst (Shutdown (snd (execute example_run example_world))) = Done () \<and>
   fst (RunE (Inl (Err ''no logger'')) example_run
          (snd (Shutdown (snd (execute example_run example_world))))) =
     Done (Some (Wrap ''failed to get logger: '' (Err ''no logger''))) \<and>
   stopTestChan (col (snd (RunE (Inl (Err ''no logger'')) example_run
          (snd (Shutdown (snd (execute example_run example_world))))))) =
     Some \<lparr>ch_buf = [], ch_cap = 0, ch_closed = True\<rparr> \<and>
   fst (Shutdown (snd (RunE (Inl (Err ''no logger'')) example_run
          (snd (Shutdown (snd (execute example_run example_world))))))) =
     Panicked nil_dereference"
  by code_simp

subsection \<open>Construction\<close>

lemma State_UNIV: "(UNIV :: State set) = {Starting, Running, Closing, Closed}"
proof -
  have "x \<in> {Starting, Running, Closing, Closed}" for x :: State
    by (cases x) simp_all
  then show ?thesis by blast
qed

lemma card_State: "card (UNIV :: State set) = 4"
  by (simp add: State_UNIV)

text \<open>
  C10. The factories are validated when the Collector is constructed. If the validation
  fails, \<^verbatim>\<open>New\<close> returns no Collector, so no state channel and nothing to publish on,
  together with the validation error. If it succeeds, \<^verbatim>\<open>New\<close> returns a Collector whose
  provider is the one of the parameters or, when that is nil, the default provider, so it
  is not nil when \<^verbatim>\<open>parserprovider.Default()\<close> returns a provider; its state channel is
  empty and open, with as much capacity as there are values of \<^verbatim>\<open>State\<close>.
\<close>

theorem New_validates_first:
  "(ValidateConfigFromFactories (Factories params) = Some err \<longrightarrow>
      New ValidateConfigFromFactories Default params = (None, Some err)) \<and>
   (ValidateConfigFromFactories (Factories params) = None \<longrightarrow>
      (\<exists>c. New ValidateConfigFromFactories Default params = (Some c, None) \<and>
         parserProvider c =
           (case ParamParserProvider params of None \<Rightarrow> Default | Some p \<Rightarrow> Some p) \<and>
         (Default \<noteq> None \<longrightarrow> parserProvider c \<noteq> None) \<and>
         ch_cap (stateChannel c) = card (UNIV :: State set) \<and>
         ch_buf (stateChannel c) = [] \<and> \<not> ch_closed (stateChannel c) \<and>
         service c = None \<and> logger c = None))"
  by (simp add: New_def Let_def make_chan_def card_State split: option.split)

theorem New_validates_first_witness:
  "New (\<lambda>f. Some (Err ''invalid factories'')) (Some example_provider) example_params =
     (None, Some (Err ''invalid factories'')) \<and>
   (\<exists>c. New (\<lambda>f. None) (Some example_provider) (example_params\<lparr>ParamParserProvider := None\<rparr>) =
           (Some c, None) \<and>
      parserProvider c = Some example_provider \<and> parserProvider c \<noteq> None \<and>
      ch_cap (stateChannel c) = 4)"
proof -
  have a: "New (\<lambda>f. Some (Err ''invalid factories'')) (Some example_provider) example_params =
     (None, Some (Err ''invalid factories''))"
    using New_validates_first
      [of "\<lambda>f. Some (Err ''invalid factories'')" example_params "Err ''invalid factories''"
         "Some example_provider"]
    by simp
  have b: "\<exists>c. New (\<lambda>f. None) (Some example_provider)
           (example_params\<lparr>ParamParserProvider := None\<rparr>) = (Some c, None) \<and>
      parserProvider c = Some example_provider \<and> parserProvider c \<noteq> None \<and>
      ch_cap (stateChannel c) = 4"
    using New_validates_first
      [of "\<lambda>f. None" "example_params\<lparr>ParamParserProvider := None\<rparr>" "Err ''unused''"
         "Some example_provider"]
    by (auto simp: card_State)
  show ?thesis
    by (intro conjI a b)
qed

text \<open>The example Collector is what \<^verbatim>\<open>New\<close> and then \<^verbatim>\<open>RunE\<close> make of the example parameters.\<close>

lemma New_example:
  "New (\<lambda>f. None) Default example_params =
     (Some (example_collector\<lparr>logger := None\<rparr>), None)"
  by (simp add: New_def Let_def example_params_def example_collector_def DefaultBinaryInfo_def)

lemma RunE_example:
  "RunE (Inr (ZapLogger [])) r \<lparr>col = example_collector\<lparr>logger := None\<rparr>, trace = []\<rparr> =
     execute r example_world"
  by (simp add: RunE_def thn_def modify_def example_world_def example_collector_def)

subsection \<open>The memory ballast\<close>

lemma unat_of_nonneg_sint:
  fixes n :: "64 word"
  assumes "0 \<le> sint n"
  shows "unat n = nat (sint n)"
proof -
  have "sint n < 2 ^ 64"
    using sint_lt [of n] by simp
  then have "take_bit 64 (sint n) = sint n"
    using assms by (simp add: take_bit_int_eq_self)
  then have "uint n = sint n"
    using uint_sint [of n] by simp
  then show ?thesis
    by (simp add: unat_eq_nat_uint)
qed

lemma mebibytes_no_wrap:
  fixes n :: "64 word"
  assumes "unat n \<le> 2 ^ 28"
  shows "unat (n * 1024 * 1024) = unat n * 1048576"
    and "n * 1024 * 1024 \<le> maxAlloc"
  using assms by (simp_all add: word_le_nat_alt unat_word_ariths maxAlloc_def mult.assoc)

text \<open>
  C7, as amended. A configured size of 0 MiB gives the nil buffer and the size 0. For every
  configured size N with 0 < N \<le> 2^28 MiB, so that the byte count is within the
  allocator's limit of 2^48 bytes, when the runtime gets the memory and the Collector's
  logger is set, \<^verbatim>\<open>createMemoryBallast\<close> returns a buffer of exactly N * 1048576 bytes
  together with that byte count, and leaves the Collector as it was.
\<close>

theorem createMemoryBallast_sizes:
  "createMemoryBallast alloc_ok 0 w = (Done (None, 0), w) \<and>
   (0 < sint n \<and> sint n \<le> 2 ^ 28 \<and> alloc_ok \<and> logger (col w) \<noteq> None \<longrightarrow>
      (\<exists>ballast sz w'. createMemoryBallast alloc_ok n w = (Done (Some ballast, sz), w') \<and>
         length ballast = nat (sint n) * 1048576 \<and> unat sz = nat (sint n) * 1048576 \<and>
         col w' = col w))"
proof (intro conjI impI)
  show "createMemoryBallast alloc_ok 0 w = (Done (None, 0), w)"
    by (simp add: createMemoryBallast_def ret_def)
next
  assume a: "0 < sint n \<and> sint n \<le> 2 ^ 28 \<and> alloc_ok \<and> logger (col w) \<noteq> None"
  then have lg: "logger (col w) \<noteq> None" and ok: "alloc_ok" by simp_all
  from a have pos: "0 <s n" by (simp add: word_sless_alt)
  from a have u: "unat n = nat (sint n)" by (simp add: unat_of_nonneg_sint)
  from a have "nat (sint n) \<le> 2 ^ 28" by (simp add: nat_le_iff)
  with u have small: "unat n \<le> 2 ^ 28" by simp
  have mk: "make_bytes alloc_ok (n * 1024 * 1024) w =
      (Done (replicate (unat (n * 1024 * 1024)) 0), w)"
    using mebibytes_no_wrap(2) [OF small] ok by (simp add: make_bytes_Done)
  have "createMemoryBallast alloc_ok n w =
      (Done (Some (replicate (unat (n * 1024 * 1024)) 0), n * 1024 * 1024),
       w\<lparr>trace := trace w @ [Log InfoLevel ''Using memory ballast'']\<rparr>)"
    using pos lg mk by (simp add: createMemoryBallast_def Let_def thn_def logAt_Done ret_def)
  then show "\<exists>ballast sz w'. createMemoryBallast alloc_ok n w = (Done (Some ballast, sz), w') \<and>
         length ballast = nat (sint n) * 1048576 \<and> unat sz = nat (sint n) * 1048576 \<and>
         col w' = col w"
    using mebibytes_no_wrap(1) [OF small] u by simp
qed

theorem createMemoryBallast_sizes_witness:
  "createMemoryBallast True 0 example_world = (Done (None, 0), example_world) \<and>
   (\<exists>ballast sz w'. createMemoryBallast True 1 example_world = (Done (Some ballast, sz), w') \<and>
         length ballast = 1048576 \<and> unat sz = 1048576 \<and> col w' = col example_world)"
  using createMemoryBallast_sizes [of True example_world 1]
  by (simp add: example_world_def example_collector_def)

text \<open>
  Above 2^28 MiB the byte count is above the allocator's limit and \<^verbatim>\<open>make\<close> panics; within
  the limit, the process ends with a fatal error when the runtime does not get the memory.
\<close>

lemma createMemoryBallast_too_large:
  "fst (createMemoryBallast True 268435457 example_world) =
     Panicked ''makeslice: len out of range''"
  by (simp add: createMemoryBallast_def make_bytes_def maxAlloc_def thn_def panic_def
      word_sless_alt)

lemma createMemoryBallast_out_of_memory:
  "fst (createMemoryBallast False 1 example_world) = Fatal ''runtime: out of memory''"
  by (simp add: createMemoryBallast_def make_bytes_def maxAlloc_def thn_def fatal_def
      word_sless_alt)

text \<open>
  C7 as stated fails at N = 2^44 MiB, a size greater than 0: the byte count N * 1048576 is
  2^64, which wraps to 0 in \<^verbatim>\<open>uint64\<close>, and the buffer returned is empty.
\<close>

theorem createMemoryBallast_wraps:
  "0 < sint (17592186044416 :: 64 word) \<and>
   fst (createMemoryBallast True 17592186044416 example_world) = Done (Some [], 0) \<and>
   length ([] :: 8 word list) \<noteq> 17592186044416 * 1048576"
  by (simp add: createMemoryBallast_def make_bytes_def maxAlloc_def thn_def ret_def logAt_def
      emit_def example_world_def example_collector_def word_sless_alt)

end
